theory Spec2Isabelle
  imports Complex_Main
begin

section \<open>Python values and exceptions\<close>

text \<open>
  The client handles whatever the JSON decoder of the HTTP library returns: a value of
  Python's dynamic type, here \<open>json\<close>. A dictionary is an association list read with
  \<open>map_of\<close>; its keys are strings, as JSON objects have them. A Python \<open>str\<close> is a
  \<open>string\<close>, one character per code point (so only code points below 256 are covered).
\<close>

datatype pyfloat = Finite real | NaN | PosInf | NegInf

datatype json =
    JNull
  | JBool bool
  | JInt int
  | JFloat pyfloat
  | JStr string
  | JList "json list"
  | JDict "(string \<times> json) list"

text \<open>
  The exception classes that occur in the sources: the hierarchy of
  \<^verbatim>\<open>errors.py\<close> (\<open>error_kind\<close>), and the classes of the Python runtime and of the
  libraries that the \<^verbatim>\<open>except\<close> clauses name. \<open>OtherError\<close> stands for every class
  that no clause of the sources names.
\<close>

datatype error_kind =
    MojangErrorK | BadRequestK | UnauthorizedK | ForbiddenK | NotFoundK
  | TooManyRequestsK | ServerErrorK | MalformedResponseK
  | LoginFailureK | MissingMinecraftLicenseK | MissingMinecraftProfileK

datatype py_class =
    ValueError | JSONDecodeError | BinasciiError | UnicodeDecodeError
  | KeyError | IndexError | TypeError | AttributeError | ContentTypeError | OtherError

text \<open>
  A library error carries its kind, its \<open>status\<close> and its \<open>detail\<close> (which the
  classifier may set to any JSON value it read from the body); an exception of the runtime
  carries its class and the text that \<^verbatim>\<open>str(exc)\<close> gives.
\<close>

datatype exn =
    Mojang error_kind int json
  | PyExc py_class string

text \<open>\<^verbatim>\<open>isinstance\<close> on the runtime classes: the three decoding errors are subclasses of
  \<open>ValueError\<close>.\<close>

fun py_subclass :: "py_class \<Rightarrow> py_class \<Rightarrow> bool" where
  "py_subclass c ValueError =
     (c = ValueError \<or> c = JSONDecodeError \<or> c = BinasciiError \<or> c = UnicodeDecodeError)"
| "py_subclass c c' = (c = c')"

fun caught :: "py_class list \<Rightarrow> exn \<Rightarrow> bool" where
  "caught cs (PyExc c m) = (\<exists>c' \<in> set cs. py_subclass c c')"
| "caught cs (Mojang k st d) = False"

subsection \<open>The error classes\<close>

definition MojangError :: "int \<Rightarrow> json \<Rightarrow> exn" where
  "MojangError st d = Mojang MojangErrorK st d"

definition BadRequest :: "int \<Rightarrow> json \<Rightarrow> exn" where
  "BadRequest st d = Mojang BadRequestK st d"

definition Unauthorized :: "int \<Rightarrow> json \<Rightarrow> exn" where
  "Unauthorized st d = Mojang UnauthorizedK st d"

definition Forbidden :: "int \<Rightarrow> json \<Rightarrow> exn" where
  "Forbidden st d = Mojang ForbiddenK st d"

definition NotFound :: "int \<Rightarrow> json \<Rightarrow> exn" where
  "NotFound st d = Mojang NotFoundK st d"

definition TooManyRequests :: "int \<Rightarrow> json \<Rightarrow> exn" where
  "TooManyRequests st d = Mojang TooManyRequestsK st d"

definition ServerError :: "int \<Rightarrow> json \<Rightarrow> exn" where
  "ServerError st d = Mojang ServerErrorK st d"

definition MalformedResponse :: "string \<Rightarrow> exn" where
  "MalformedResponse d = Mojang MalformedResponseK 0 (JStr d)"

subsection \<open>Operations of the Python runtime\<close>

fun truthy :: "json \<Rightarrow> bool" where
  "truthy JNull = False"
| "truthy (JBool b) = b"
| "truthy (JInt i) = (i \<noteq> 0)"
| "truthy (JFloat f) = (f \<noteq> Finite 0)"
| "truthy (JStr s) = (s \<noteq> [])"
| "truthy (JList xs) = (xs \<noteq> [])"
| "truthy (JDict kvs) = (kvs \<noteq> [])"

fun type_name :: "json \<Rightarrow> string" where
  "type_name JNull = ''NoneType''"
| "type_name (JBool b) = ''bool''"
| "type_name (JInt i) = ''int''"
| "type_name (JFloat f) = ''float''"
| "type_name (JStr s) = ''str''"
| "type_name (JList xs) = ''list''"
| "type_name (JDict kvs) = ''dict''"

fun str_nat :: "nat \<Rightarrow> string" where
  "str_nat n =
     (if n < 10 then [char_of (48 + n)] else str_nat (n div 10) @ [char_of (48 + n mod 10)])"

declare str_nat.simps [simp del]

definition str_int :: "int \<Rightarrow> string" where
  "str_int i = (if i < 0 then CHR ''-'' # str_nat (nat (- i)) else str_nat (nat i))"

text \<open>\<^verbatim>\<open>str(exc)\<close>: the text of an exception of the runtime; for a library error the
  message that \<^verbatim>\<open>MojangError.__init__\<close> builds from a detail that is a string (the text of
  another detail is not modelled: the sources format none).\<close>

fun exn_str :: "exn \<Rightarrow> string" where
  "exn_str (PyExc c m) = m"
| "exn_str (Mojang k st (JStr s)) =
     (if st \<noteq> 0 then ''[HTTP '' @ str_int st @ ''] '' @ s else s)"
| "exn_str (Mojang k st d) = []"

text \<open>\<^verbatim>\<open>obj.get(key, default)\<close>: only a dictionary has the method.\<close>

fun py_get :: "json \<Rightarrow> string \<Rightarrow> json \<Rightarrow> exn + json" where
  "py_get (JDict kvs) k dflt = Inr (case map_of kvs k of Some v \<Rightarrow> v | None \<Rightarrow> dflt)"
| "py_get v k dflt =
     Inl (PyExc AttributeError
       ([CHR 0x27] @ type_name v @ [CHR 0x27] @ '' object has no attribute '' @
        [CHR 0x27] @ ''get'' @ [CHR 0x27]))"

text \<open>\<^verbatim>\<open>obj[key]\<close> for a string key, and \<^verbatim>\<open>obj[i]\<close> for an integer index.\<close>

fun py_getitem :: "json \<Rightarrow> string \<Rightarrow> exn + json" where
  "py_getitem (JDict kvs) k =
     (case map_of kvs k of
        Some v \<Rightarrow> Inr v
      | None \<Rightarrow> Inl (PyExc KeyError ([CHR 0x27] @ k @ [CHR 0x27])))"
| "py_getitem (JList xs) k =
     Inl (PyExc TypeError ''list indices must be integers or slices, not str'')"
| "py_getitem (JStr s) k =
     Inl (PyExc TypeError
       (''string indices must be integers, not '' @ [CHR 0x27] @ ''str'' @ [CHR 0x27]))"
| "py_getitem v k =
     Inl (PyExc TypeError
       ([CHR 0x27] @ type_name v @ [CHR 0x27] @ '' object is not subscriptable''))"

text \<open>The position that an index denotes in a sequence of \<open>len\<close> items: a negative
  index counts from the end; \<open>None\<close> when it is out of range.\<close>

definition seq_position :: "nat \<Rightarrow> int \<Rightarrow> nat option" where
  "seq_position len i =
     (if 0 \<le> i \<and> i < int len then Some (nat i)
      else if i < 0 \<and> - int len \<le> i then Some (nat (int len + i))
      else None)"

fun py_index :: "json \<Rightarrow> int \<Rightarrow> exn + json" where
  "py_index (JDict kvs) i = Inl (PyExc KeyError (str_int i))"
| "py_index (JList xs) i =
     (case seq_position (length xs) i of
        Some j \<Rightarrow> Inr (xs ! j)
      | None \<Rightarrow> Inl (PyExc IndexError ''list index out of range''))"
| "py_index (JStr s) i =
     (case seq_position (length s) i of
        Some j \<Rightarrow> Inr (JStr [s ! j])
      | None \<Rightarrow> Inl (PyExc IndexError ''string index out of range''))"
| "py_index v i =
     Inl (PyExc TypeError
       ([CHR 0x27] @ type_name v @ [CHR 0x27] @ '' object is not subscriptable''))"

section \<open>The HTTP client\<close>

text \<open>
  A response as the client reads it: \<open>status\<close>, \<open>reason\<close> and the path of its URL, and
  what the library's \<^verbatim>\<open>resp.json()\<close> and \<^verbatim>\<open>resp.text()\<close> give on it
  (a value, or the exception they raise). \<^verbatim>\<open>resp.ok\<close> is the library's test
  \<^verbatim>\<open>400 > status\<close>.
\<close>

record response =
  status :: int
  reason :: "string option"
  url_path :: string
  resp_json :: "exn + json"
  resp_text :: "exn + string"

definition ok :: "response \<Rightarrow> bool" where
  "ok resp = (400 > status resp)"

text \<open>
  The session answers the request of each attempt: \<open>sess method url kwargs n\<close> is the
  response to the \<open>n\<close>-th request that one call issues.
\<close>

type_synonym kwargs = "(string \<times> json) list"
type_synonym session = "string \<Rightarrow> string \<Rightarrow> kwargs \<Rightarrow> int \<Rightarrow> response"

record http_client =
  max_attempts :: int
  retry :: bool
  retry_delay :: real

definition DEFAULT_MAX_ATTEMPTS :: int where
  "DEFAULT_MAX_ATTEMPTS = 3"

definition http_client_init :: "bool \<Rightarrow> real \<Rightarrow> int \<Rightarrow> exn + http_client" where
  "http_client_init retry_on_ratelimit ratelimit_sleep_time max_att =
     (if max_att < 1
      then Inl (PyExc ValueError (''max_attempts must be at least 1, got '' @ str_int max_att))
      else Inr \<lparr>max_attempts = max_att, retry = retry_on_ratelimit,
                retry_delay = ratelimit_sleep_time\<rparr>)"

text \<open>What one call does to the outside: the requests it issues, the bodies it drains and
  the delays it sleeps, in order.\<close>

datatype event = Attempt int | Drain | Sleep real

fun is_attempt :: "event \<Rightarrow> bool" where
  "is_attempt (Attempt n) = True"
| "is_attempt e = False"

fun sleep_of :: "event \<Rightarrow> real option" where
  "sleep_of (Sleep d) = Some d"
| "sleep_of e = None"

definition attempts :: "event list \<Rightarrow> nat" where
  "attempts evs = length (filter is_attempt evs)"

definition delays :: "event list \<Rightarrow> real list" where
  "delays evs = List.map_filter sleep_of evs"

definition STATUS_TO_ERROR :: "int \<Rightarrow> (int \<Rightarrow> json \<Rightarrow> exn) option" where
  "STATUS_TO_ERROR st =
     (if st = 400 then Some BadRequest
      else if st = 401 then Some Unauthorized
      else if st = 403 then Some Forbidden
      else if st = 404 then Some NotFound
      else if st = 429 then Some TooManyRequests
      else None)"

text \<open>\<^verbatim>\<open>_maybe_retry\<close>: the decision, and the events it caused.\<close>

definition maybe_retry :: "http_client \<Rightarrow> response \<Rightarrow> int \<Rightarrow> bool \<times> event list" where
  "maybe_retry c resp attempt =
     (if attempt \<ge> max_attempts c then (False, [])
      else if status resp = 429 \<and> retry c then (True, [Drain, Sleep (retry_delay c)])
      else if status resp \<in> {502, 503, 504} then
        (let delay = (if attempt - 1 \<ge> 0 then 2 ^ nat (attempt - 1)
                      else 1 / 2 ^ nat (- (attempt - 1)))
         in (True, [Drain, Sleep delay]))
      else (False, [Drain]))"

text \<open>The \<^verbatim>\<open>try\<close> block of \<^verbatim>\<open>_raise_for_status\<close>: the detail, or the exception
  that no clause catches.\<close>

definition error_detail :: "response \<Rightarrow> exn + json" where
  "error_detail resp =
     (case resp_json resp of
        Inr error_data \<Rightarrow>
          (case py_get error_data ''errorMessage'' JNull of
             Inl exc \<Rightarrow> Inl exc
           | Inr a \<Rightarrow>
               if truthy a then Inr a
               else (case py_get error_data ''error'' JNull of
                       Inl exc \<Rightarrow> Inl exc
                     | Inr b \<Rightarrow>
                         if truthy b then Inr b
                         else Inr (JStr (''HTTP '' @ str_int (status resp)))))
      | Inl exc \<Rightarrow>
          if caught [JSONDecodeError, ContentTypeError] exc
          then Inr (JStr (''HTTP '' @ str_int (status resp) @ '' '' @
                 (case reason resp of None \<Rightarrow> ''error''
                  | Some r \<Rightarrow> if r \<noteq> [] then r else ''error'') @
                 '' for '' @ url_path resp))
          else Inl exc)"

text \<open>\<^verbatim>\<open>_raise_for_status\<close> never returns: its value is the exception that leaves it.\<close>

definition raise_for_status :: "response \<Rightarrow> exn" where
  "raise_for_status resp =
     (case error_detail resp of
        Inl exc \<Rightarrow> exc
      | Inr detail \<Rightarrow>
          (case STATUS_TO_ERROR (status resp) of
             Some exc_cls \<Rightarrow> exc_cls (status resp) detail
           | None \<Rightarrow>
               if status resp \<ge> 500 then ServerError (status resp) detail
               else MojangError (status resp) detail))"

text \<open>
  The loop of \<^verbatim>\<open>_request\<close> over the attempt numbers that are left. The result is the
  exception raised or the value returned; \<open>Inr None\<close> is the implicit \<^verbatim>\<open>None\<close> of a
  loop that ends without returning.
\<close>

fun request_loop ::
  "http_client \<Rightarrow> session \<Rightarrow> string \<Rightarrow> string \<Rightarrow> kwargs \<Rightarrow> (response \<Rightarrow> exn + 'a) \<Rightarrow>
   int list \<Rightarrow> (exn + 'a option) \<times> event list" where
  "request_loop c sess method url kw deserialize [] = (Inr None, [])"
| "request_loop c sess method url kw deserialize (attempt # rest) =
     (let resp = sess method url kw attempt in
      if ok resp then
        (case deserialize resp of
           Inr v \<Rightarrow> (Inr (Some v), [Attempt attempt])
         | Inl exc \<Rightarrow>
             if caught [JSONDecodeError, ContentTypeError] exc
             then (Inl (MalformedResponse
                     (''Failed to deserialize '' @ method @ '' '' @ url @ '': '' @ exn_str exc)),
                   [Attempt attempt])
             else (Inl exc, [Attempt attempt]))
      else
        (case maybe_retry c resp attempt of
           (True, evs) \<Rightarrow>
             (case request_loop c sess method url kw deserialize rest of
                (r, evs') \<Rightarrow> (r, Attempt attempt # evs @ evs'))
         | (False, evs) \<Rightarrow> (Inl (raise_for_status resp), Attempt attempt # evs)))"

definition request ::
  "http_client \<Rightarrow> session \<Rightarrow> string \<Rightarrow> string \<Rightarrow> kwargs \<Rightarrow> (response \<Rightarrow> exn + 'a) \<Rightarrow>
   (exn + 'a option) \<times> event list" where
  "request c sess method url kw deserialize =
     request_loop c sess method url kw deserialize [1..max_attempts c]"

definition get_json ::
  "http_client \<Rightarrow> session \<Rightarrow> string \<Rightarrow> kwargs \<Rightarrow> (exn + json option) \<times> event list" where
  "get_json c sess url kw = request c sess ''GET'' url kw resp_json"

definition post_json ::
  "http_client \<Rightarrow> session \<Rightarrow> string \<Rightarrow> kwargs \<Rightarrow> (exn + json option) \<times> event list" where
  "post_json c sess url kw = request c sess ''POST'' url kw resp_json"


section \<open>The public API\<close>

subsection \<open>What the code takes from the standard library\<close>

text \<open>
  \<^verbatim>\<open>base64.b64decode\<close>, \<^verbatim>\<open>json.loads\<close> and the constructor \<^verbatim>\<open>uuid.UUID\<close> are
  parameters of the model: each gives a value or raises. A property that is stated for
  every \<open>lib\<close> holds whatever these functions do. A UUID is its integer
  (\<^verbatim>\<open>UUID.int\<close>, below \<open>2 ^ 128\<close>).
\<close>

type_synonym uuid = int

record stdlib =
  b64decode :: "json \<Rightarrow> exn + string"
  json_loads :: "string \<Rightarrow> exn + json"
  uuid_UUID :: "json \<Rightarrow> exn + uuid"

definition hex_digit :: "nat \<Rightarrow> char" where
  "hex_digit d = ''0123456789abcdef'' ! d"

text \<open>\<^verbatim>\<open>UUID.hex\<close>: the 32 hexadecimal digits of the integer.\<close>

definition uuid_hex :: "uuid \<Rightarrow> string" where
  "uuid_hex u = map (\<lambda>i. hex_digit (nat (u div 16 ^ (31 - i) mod 16))) [0..<32]"

definition bind_exn :: "exn + 'a \<Rightarrow> ('a \<Rightarrow> exn + 'b) \<Rightarrow> exn + 'b" where
  "bind_exn x f = (case x of Inl exc \<Rightarrow> Inl exc | Inr v \<Rightarrow> f v)"

text \<open>\<^verbatim>\<open>repr\<close> of a string that holds no quote and nothing to escape.\<close>

definition repr_str :: "string \<Rightarrow> string" where
  "repr_str s = [CHR 0x27] @ s @ [CHR 0x27]"

subsection \<open>Validation of arguments\<close>

definition isascii :: "string \<Rightarrow> bool" where
  "isascii s = list_all (\<lambda>c. (of_char c :: nat) < 128) s"

text \<open>\<^verbatim>\<open>_assert_valid_username\<close>: the \<open>ValueError\<close> it raises, or \<open>None\<close>.\<close>

definition assert_valid_username :: "string \<Rightarrow> exn option" where
  "assert_valid_username username =
     (if length username < 3 \<or> length username > 16
      then Some (PyExc ValueError
             (''Invalid username '' @ repr_str username @
              '': must be between 3 and 16 characters''))
      else if \<not> isascii username
      then Some (PyExc ValueError
             (''Invalid username '' @ repr_str username @
              '': contains non-ASCII characters''))
      else None)"

datatype player = PlayerUUID uuid | PlayerStr string

fun parse_uuid :: "stdlib \<Rightarrow> player \<Rightarrow> exn + uuid" where
  "parse_uuid lib (PlayerUUID u) = Inr u"
| "parse_uuid lib (PlayerStr s) =
     (case uuid_UUID lib (JStr s) of
        Inr u \<Rightarrow> Inr u
      | Inl exc \<Rightarrow>
          if caught [ValueError] exc
          then Inl (PyExc ValueError (''Invalid UUID: '' @ repr_str s))
          else Inl exc)"

subsection \<open>The profile record\<close>

text \<open>The dataclass checks no field type: a field holds whatever value the payload had.\<close>

record UserProfile =
  id' :: uuid
  timestamp :: json
  name :: json
  is_legacy_profile :: bool
  skin_variant :: json
  skin_url :: json
  cape_url :: json

subsection \<open>The lookups\<close>

definition API_BASE_URL :: string where
  "API_BASE_URL = ''https://api.mojang.com''"

definition SESSIONSERVER_BASE_URL :: string where
  "SESSIONSERVER_BASE_URL = ''https://sessionserver.mojang.com''"

definition UUID_API_URL :: string where
  "UUID_API_URL = ''https://api.minecraftservices.com/minecraft/profile/lookup/name''"

definition MAX_BATCH :: nat where
  "MAX_BATCH = 10"

definition NOT_FOUND_ERRORS :: "error_kind list" where
  "NOT_FOUND_ERRORS = [NotFoundK, BadRequestK]"

text \<open>\<^verbatim>\<open>except _NOT_FOUND_ERRORS\<close>.\<close>

fun is_not_found :: "exn \<Rightarrow> bool" where
  "is_not_found (Mojang k st d) = (k \<in> set NOT_FOUND_ERRORS)"
| "is_not_found (PyExc c m) = False"

text \<open>What \<^verbatim>\<open>_request\<close> returned, as a value: the implicit \<^verbatim>\<open>None\<close> is \<open>JNull\<close>.\<close>

fun returned :: "json option \<Rightarrow> json" where
  "returned None = JNull"
| "returned (Some v) = v"

definition get_uuid ::
  "stdlib \<Rightarrow> http_client \<Rightarrow> session \<Rightarrow> string \<Rightarrow> (exn + uuid option) \<times> event list" where
  "get_uuid lib c sess username =
     (case assert_valid_username username of
        Some exc \<Rightarrow> (Inl exc, [])
      | None \<Rightarrow>
          (case get_json c sess (UUID_API_URL @ ''/'' @ username) [] of
             (Inl exc, evs) \<Rightarrow> if is_not_found exc then (Inr None, evs) else (Inl exc, evs)
           | (Inr data, evs) \<Rightarrow>
               (case py_getitem (returned data) ''id'' of
                  Inl exc \<Rightarrow>
                    if caught [KeyError, TypeError, AttributeError] exc
                    then (Inl (MalformedResponse
                            (''UUID lookup response missing '' @ repr_str ''id'' @ '': '' @
                             exn_str exc)), evs)
                    else (Inl exc, evs)
                | Inr raw \<Rightarrow>
                    if truthy raw
                    then (case uuid_UUID lib raw of
                            Inl exc \<Rightarrow> (Inl exc, evs)
                          | Inr u \<Rightarrow> (Inr (Some u), evs))
                    else (Inr None, evs))))"

text \<open>Iterating over a value: the items of a list, the keys of a dictionary, the
  characters of a string; nothing else of JSON is iterable.\<close>

fun py_iter :: "json \<Rightarrow> exn + json list" where
  "py_iter (JList xs) = Inr xs"
| "py_iter (JDict kvs) = Inr (map JStr (remdups (map fst kvs)))"
| "py_iter (JStr s) = Inr (map (\<lambda>c. JStr [c]) s)"
| "py_iter v =
     Inl (PyExc TypeError ([CHR 0x27] @ type_name v @ [CHR 0x27] @ '' object is not iterable''))"

fun hashable :: "json \<Rightarrow> bool" where
  "hashable (JList xs) = False"
| "hashable (JDict kvs) = False"
| "hashable v = True"

text \<open>The dictionary comprehension of \<^verbatim>\<open>get_uuids\<close>: the pairs it inserts, in order
  (a later pair replaces an earlier one with an equal key).\<close>

fun batch_entries :: "stdlib \<Rightarrow> json list \<Rightarrow> exn + (json \<times> uuid) list" where
  "batch_entries lib [] = Inr []"
| "batch_entries lib (entry # rest) =
     bind_exn (py_getitem entry ''name'') (\<lambda>k.
     bind_exn (py_getitem entry ''id'') (\<lambda>i.
     bind_exn (uuid_UUID lib i) (\<lambda>u.
       if hashable k
       then bind_exn (batch_entries lib rest) (\<lambda>r. Inr ((k, u) # r))
       else Inl (PyExc TypeError
              (''unhashable type: '' @ [CHR 0x27] @ type_name k @ [CHR 0x27])))))"

fun first_invalid :: "string list \<Rightarrow> exn option" where
  "first_invalid [] = None"
| "first_invalid (n # ns) =
     (case assert_valid_username n of Some exc \<Rightarrow> Some exc | None \<Rightarrow> first_invalid ns)"

definition get_uuids ::
  "stdlib \<Rightarrow> http_client \<Rightarrow> session \<Rightarrow> string list \<Rightarrow>
   (exn + (json \<times> uuid) list) \<times> event list" where
  "get_uuids lib c sess names =
     (if length names > MAX_BATCH
      then (Inl (PyExc ValueError
             (''Mojang batch API accepts at most '' @ str_nat MAX_BATCH @ '' names, got '' @
              str_nat (length names))), [])
      else (case first_invalid names of
          Some exc \<Rightarrow> (Inl exc, [])
        | None \<Rightarrow>
          (case post_json c sess (API_BASE_URL @ ''/profiles/minecraft'')
                  [(''json'', JList (map JStr names))] of
             (Inl exc, evs) \<Rightarrow> if is_not_found exc then (Inr [], evs) else (Inl exc, evs)
           | (Inr data, evs) \<Rightarrow>
               (case bind_exn (py_iter (returned data)) (batch_entries lib) of
                  Inl exc \<Rightarrow>
                    if caught [TypeError, KeyError, ValueError] exc
                    then (Inl (MalformedResponse
                            (''Unexpected batch-lookup response shape: '' @ exn_str exc)), evs)
                    else (Inl exc, evs)
                | Inr d \<Rightarrow> (Inr d, evs)))))"

text \<open>\<^verbatim>\<open>get_username\<close> returns the value of \<open>name\<close> as it is; \<open>JNull\<close> is Python's
  \<^verbatim>\<open>None\<close>.\<close>

definition get_username ::
  "stdlib \<Rightarrow> http_client \<Rightarrow> session \<Rightarrow> player \<Rightarrow> (exn + json) \<times> event list" where
  "get_username lib c sess player =
     (case parse_uuid lib player of
        Inl exc \<Rightarrow> (Inl exc, [])
      | Inr uid \<Rightarrow>
          (case get_json c sess
                  (SESSIONSERVER_BASE_URL @ ''/session/minecraft/profile/'' @ uuid_hex uid) [] of
             (Inl exc, evs) \<Rightarrow> if is_not_found exc then (Inr JNull, evs) else (Inl exc, evs)
           | (Inr data, evs) \<Rightarrow>
               (case py_getitem (returned data) ''name'' of
                  Inl exc \<Rightarrow>
                    if caught [KeyError, TypeError, AttributeError] exc
                    then (Inl (MalformedResponse
                            (''Profile response missing '' @ repr_str ''name'' @ '': '' @
                             exn_str exc)), evs)
                    else (Inl exc, evs)
                | Inr v \<Rightarrow> (Inr v, evs))))"

text \<open>The first \<^verbatim>\<open>try\<close> block of \<^verbatim>\<open>_parse_profile\<close>.\<close>

definition decode_textures :: "stdlib \<Rightarrow> json \<Rightarrow> exn + json" where
  "decode_textures lib data =
     bind_exn (py_getitem data ''properties'') (\<lambda>props.
     bind_exn (py_index props 0) (\<lambda>prop.
     bind_exn (py_getitem prop ''value'') (\<lambda>val.
     bind_exn (b64decode lib val) (\<lambda>bytes.
     json_loads lib bytes))))"

text \<open>The second \<^verbatim>\<open>try\<close> block: the arguments of the constructor, in the order the
  call lists them.\<close>

definition build_profile :: "stdlib \<Rightarrow> json \<Rightarrow> json \<Rightarrow> json \<Rightarrow> exn + UserProfile" where
  "build_profile lib decoded textures skin =
     bind_exn (py_getitem decoded ''profileId'') (\<lambda>pid.
     bind_exn (uuid_UUID lib pid) (\<lambda>uid.
     bind_exn (py_getitem decoded ''timestamp'') (\<lambda>ts.
     bind_exn (py_getitem decoded ''profileName'') (\<lambda>nm.
     bind_exn (py_get decoded ''legacy'' JNull) (\<lambda>legacy.
     bind_exn (py_get skin ''url'' JNull) (\<lambda>url.
     bind_exn (py_get skin ''metadata'' (JDict [])) (\<lambda>metadata.
     bind_exn (py_get metadata ''model'' (JStr ''classic'')) (\<lambda>model.
     bind_exn (py_get textures ''CAPE'' (JDict [])) (\<lambda>cape.
     bind_exn (py_get cape ''url'' JNull) (\<lambda>cape_u.
       Inr \<lparr>id' = uid, timestamp = ts, name = nm, is_legacy_profile = truthy legacy,
            skin_variant = model, skin_url = url, cape_url = cape_u\<rparr>))))))))))"

definition parse_profile :: "stdlib \<Rightarrow> json \<Rightarrow> exn + UserProfile" where
  "parse_profile lib data =
     (case decode_textures lib data of
        Inl exc \<Rightarrow>
          if caught [KeyError, IndexError, JSONDecodeError, BinasciiError] exc
          then Inl (MalformedResponse (''Cannot decode profile textures: '' @ exn_str exc))
          else Inl exc
      | Inr decoded \<Rightarrow>
          bind_exn (py_get decoded ''textures'' (JDict [])) (\<lambda>textures.
          bind_exn (py_get textures ''SKIN'' (JDict [])) (\<lambda>skin.
            (case build_profile lib decoded textures skin of
               Inl exc \<Rightarrow>
                 if caught [KeyError, ValueError] exc
                 then Inl (MalformedResponse
                        (''Profile payload missing or invalid field: '' @ exn_str exc))
                 else Inl exc
             | Inr profile \<Rightarrow> Inr profile))))"

definition get_profile ::
  "stdlib \<Rightarrow> http_client \<Rightarrow> session \<Rightarrow> player \<Rightarrow>
   (exn + UserProfile option) \<times> event list" where
  "get_profile lib c sess player =
     (case parse_uuid lib player of
        Inl exc \<Rightarrow> (Inl exc, [])
      | Inr uid \<Rightarrow>
          (case get_json c sess
                  (SESSIONSERVER_BASE_URL @ ''/session/minecraft/profile/'' @ uuid_hex uid) [] of
             (Inl exc, evs) \<Rightarrow> if is_not_found exc then (Inr None, evs) else (Inl exc, evs)
           | (Inr data, evs) \<Rightarrow>
               (case parse_profile lib (returned data) of
                  Inl exc \<Rightarrow> (Inl exc, evs)
                | Inr profile \<Rightarrow> (Inr (Some profile), evs))))"

text \<open>The outcome ``raised \<open>MalformedResponse\<close>'', whose status is 0.\<close>

fun is_malformed :: "exn + 'a \<Rightarrow> bool" where
  "is_malformed (Inl (Mojang k st d)) = (k = MalformedResponseK \<and> st = 0)"
| "is_malformed r = False"

section \<open>An instance of the standard library\<close>

text \<open>
  For the concrete evaluations, the three library functions on the inputs that occur there:
  base64 text, JSON text in ASCII without string escapes and without fractions or
  exponents, and UUIDs written as 32 hexadecimal digits with or without dashes. On an
  input outside this range the instance answers \<open>OtherError\<close>, which no clause of the
  sources catches. The texts of the error messages are shortened.
\<close>

subsection \<open>base64.b64decode\<close>

text \<open>The table of the alphabet: the value of a character, or 64 for a character outside the
  alphabet.\<close>

definition table_a2b_base64 :: "char \<Rightarrow> nat" where
  "table_a2b_base64 ch =
     (if 65 \<le> (of_char ch :: nat) \<and> (of_char ch :: nat) \<le> 90 then of_char ch - 65
      else if 97 \<le> (of_char ch :: nat) \<and> (of_char ch :: nat) \<le> 122 then of_char ch - 71
      else if 48 \<le> (of_char ch :: nat) \<and> (of_char ch :: nat) \<le> 57 then of_char ch + 4
      else if ch = CHR ''+'' then 62
      else if ch = CHR ''/'' then 63
      else 64)"

text \<open>
  The decoding loop of \<^verbatim>\<open>binascii.a2b_base64\<close> without strict mode: \<open>quad\<close> is the
  position in the group of four, \<open>left\<close> the bits not yet written, \<open>pads\<close> the padding
  characters seen; a character outside the alphabet is skipped. \<open>out\<close> is the output so
  far, reversed.
\<close>

fun a2b_base64 :: "nat \<Rightarrow> nat \<Rightarrow> nat \<Rightarrow> string \<Rightarrow> string \<Rightarrow> exn + string" where
  "a2b_base64 quad left pads out [] =
     (if quad = 0 then Inr (rev out)
      else if quad = 1
      then Inl (PyExc BinasciiError
             ''Invalid base64-encoded string: number of data characters cannot be 1 more than a multiple of 4'')
      else Inl (PyExc BinasciiError ''Incorrect padding''))"
| "a2b_base64 quad left pads out (ch # rest) =
     (if ch = CHR ''='' then
        (if quad \<ge> 2 \<and> quad + (pads + 1) \<ge> 4 then Inr (rev out)
         else a2b_base64 quad left (if quad \<ge> 2 then pads + 1 else pads) out rest)
      else if table_a2b_base64 ch \<ge> 64 then a2b_base64 quad left pads out rest
      else if quad = 0 then a2b_base64 1 (table_a2b_base64 ch) 0 out rest
      else if quad = 1
      then a2b_base64 2 (table_a2b_base64 ch mod 16) 0
             (char_of (left * 4 + table_a2b_base64 ch div 16) # out) rest
      else if quad = 2
      then a2b_base64 3 (table_a2b_base64 ch mod 4) 0
             (char_of (left * 16 + table_a2b_base64 ch div 4) # out) rest
      else a2b_base64 0 0 0 (char_of (left * 64 + table_a2b_base64 ch) # out) rest)"

fun py_b64decode :: "json \<Rightarrow> exn + string" where
  "py_b64decode (JStr s) =
     (if isascii s then a2b_base64 0 0 0 [] s
      else Inl (PyExc ValueError ''string argument should contain only ASCII characters''))"
| "py_b64decode v =
     Inl (PyExc TypeError
       (''argument should be a bytes-like object or ASCII string, not '' @
        [CHR 0x27] @ type_name v @ [CHR 0x27]))"

subsection \<open>json.loads\<close>

datatype token =
    TLBrace | TRBrace | TLBrack | TRBrack | TColon | TComma
  | TString string | TNumber int | TTrue | TFalse | TNull

definition is_ws :: "char \<Rightarrow> bool" where
  "is_ws ch = (ch = CHR '' '' \<or> ch = CHR 0x09 \<or> ch = CHR 0x0A \<or> ch = CHR 0x0D)"

definition is_digit :: "char \<Rightarrow> bool" where
  "is_digit ch = (48 \<le> (of_char ch :: nat) \<and> (of_char ch :: nat) \<le> 57)"

definition digits_value :: "string \<Rightarrow> int" where
  "digits_value ds = foldl (\<lambda>acc ch. 10 * acc + (int (of_char ch) - 48)) 0 ds"

definition decode_error :: exn where
  "decode_error = PyExc JSONDecodeError ''Expecting value''"

definition not_covered :: exn where
  "not_covered = PyExc OtherError ''input outside the instance''"

text \<open>A number token from its digits: a leading zero is followed by no digit; a fraction
  or an exponent is outside the instance.\<close>

definition number_token :: "bool \<Rightarrow> string \<Rightarrow> string \<Rightarrow> exn + token" where
  "number_token neg ds rest =
     (if ds = [] \<and> rest \<noteq> [] \<and> hd rest = CHR ''I'' then Inl not_covered
      else if ds = [] \<or> (hd ds = CHR ''0'' \<and> length ds > 1) then Inl decode_error
      else if rest \<noteq> [] \<and> hd rest \<in> {CHR ''.'', CHR ''e'', CHR ''E''} then Inl not_covered
      else Inr (TNumber (if neg then - digits_value ds else digits_value ds)))"

function lex :: "string \<Rightarrow> exn + token list" where
  "lex [] = Inr []"
| "lex (ch # cs) =
     (if is_ws ch then lex cs
      else if ch = CHR ''{'' then bind_exn (lex cs) (\<lambda>ts. Inr (TLBrace # ts))
      else if ch = CHR ''}'' then bind_exn (lex cs) (\<lambda>ts. Inr (TRBrace # ts))
      else if ch = CHR ''['' then bind_exn (lex cs) (\<lambda>ts. Inr (TLBrack # ts))
      else if ch = CHR '']'' then bind_exn (lex cs) (\<lambda>ts. Inr (TRBrack # ts))
      else if ch = CHR '':'' then bind_exn (lex cs) (\<lambda>ts. Inr (TColon # ts))
      else if ch = CHR '','' then bind_exn (lex cs) (\<lambda>ts. Inr (TComma # ts))
      else if ch = CHR 0x22 then
        (if CHR 0x5C \<in> set (takeWhile (\<lambda>x. x \<noteq> CHR 0x22) cs) then Inl not_covered
         else if list_ex (\<lambda>x. (of_char x :: nat) < 32) (takeWhile (\<lambda>x. x \<noteq> CHR 0x22) cs)
         then Inl decode_error
         else if dropWhile (\<lambda>x. x \<noteq> CHR 0x22) cs = [] then Inl decode_error
         else bind_exn (lex (tl (dropWhile (\<lambda>x. x \<noteq> CHR 0x22) cs)))
                (\<lambda>ts. Inr (TString (takeWhile (\<lambda>x. x \<noteq> CHR 0x22) cs) # ts)))
      else if ch = CHR ''-'' then
        bind_exn (number_token True (takeWhile is_digit cs) (dropWhile is_digit cs)) (\<lambda>t.
        bind_exn (lex (dropWhile is_digit cs)) (\<lambda>ts. Inr (t # ts)))
      else if is_digit ch then
        bind_exn (number_token False (ch # takeWhile is_digit cs) (dropWhile is_digit cs)) (\<lambda>t.
        bind_exn (lex (dropWhile is_digit cs)) (\<lambda>ts. Inr (t # ts)))
      else if take 4 (ch # cs) = ''true'' then bind_exn (lex (drop 3 cs)) (\<lambda>ts. Inr (TTrue # ts))
      else if take 5 (ch # cs) = ''false'' then bind_exn (lex (drop 4 cs)) (\<lambda>ts. Inr (TFalse # ts))
      else if take 4 (ch # cs) = ''null'' then bind_exn (lex (drop 3 cs)) (\<lambda>ts. Inr (TNull # ts))
      else if ch \<in> {CHR ''N'', CHR ''I''} then Inl not_covered
      else Inl decode_error)"
  by pat_completeness auto
termination
proof (relation "measure length")
  show "wf (measure (length :: string \<Rightarrow> nat))"
    by simp
next
  fix cs :: string
  have "length (tl (dropWhile (\<lambda>x. x \<noteq> CHR 0x22) cs)) \<le> length cs"
    using length_dropWhile_le [of "\<lambda>x. x \<noteq> CHR 0x22" cs] by simp
  then show "\<And>ch. (tl (dropWhile (\<lambda>x. x \<noteq> CHR 0x22) cs), ch # cs) \<in> measure length"
    by simp
qed (auto simp: le_imp_less_Suc length_dropWhile_le)

text \<open>
  The parser reads the tokens from left to right. Its state is what it expects next and
  the stack of the arrays and objects that are open, the innermost first; an open object
  holds the key whose value is due.
\<close>

datatype mode =
    ListStart | DictStart | WantValue | WantKey | WantColon | AfterValue | Finished json

datatype frame = FList "json list" | FDict "(string \<times> json) list" string

text \<open>Storing a key: a key that is present keeps its place and takes the new value.\<close>

definition dict_set :: "string \<Rightarrow> json \<Rightarrow> (string \<times> json) list \<Rightarrow> (string \<times> json) list" where
  "dict_set k v kvs =
     (if k \<in> fst ` set kvs then map (\<lambda>(k', v'). if k' = k then (k', v) else (k', v')) kvs
      else kvs @ [(k, v)])"

fun scalar_value :: "token \<Rightarrow> json option" where
  "scalar_value (TString s) = Some (JStr s)"
| "scalar_value (TNumber i) = Some (JInt i)"
| "scalar_value TTrue = Some (JBool True)"
| "scalar_value TFalse = Some (JBool False)"
| "scalar_value TNull = Some JNull"
| "scalar_value t = None"

fun key_of :: "token \<Rightarrow> string option" where
  "key_of (TString s) = Some s"
| "key_of t = None"

text \<open>A value is complete: it is the whole text, an item of the open array, or the value of
  the pending key.\<close>

fun complete :: "json \<Rightarrow> frame list \<Rightarrow> (mode \<times> frame list) option" where
  "complete v [] = Some (Finished v, [])"
| "complete v (FList xs # st) = Some (AfterValue, FList (xs @ [v]) # st)"
| "complete v (FDict kvs k # st) = Some (AfterValue, FDict (dict_set k v kvs) k # st)"

fun close_list :: "frame list \<Rightarrow> (mode \<times> frame list) option" where
  "close_list (FList xs # st) = complete (JList xs) st"
| "close_list st = None"

fun close_dict :: "frame list \<Rightarrow> (mode \<times> frame list) option" where
  "close_dict (FDict kvs k # st) = complete (JDict kvs) st"
| "close_dict st = None"

fun after_comma :: "frame list \<Rightarrow> (mode \<times> frame list) option" where
  "after_comma (FList xs # st) = Some (WantValue, FList xs # st)"
| "after_comma (FDict kvs k # st) = Some (WantKey, FDict kvs k # st)"
| "after_comma [] = None"

fun set_key :: "string \<Rightarrow> frame list \<Rightarrow> (mode \<times> frame list) option" where
  "set_key k (FDict kvs k' # st) = Some (WantColon, FDict kvs k # st)"
| "set_key k st = None"

definition step :: "mode \<Rightarrow> frame list \<Rightarrow> token \<Rightarrow> (mode \<times> frame list) option" where
  "step m st t =
     (if m = WantValue \<or> m = ListStart then
        (if t = TLBrack then Some (ListStart, FList [] # st)
         else if t = TLBrace then Some (DictStart, FDict [] [] # st)
         else if t = TRBrack \<and> m = ListStart then close_list st
         else if scalar_value t \<noteq> None then complete (the (scalar_value t)) st
         else None)
      else if m = DictStart \<or> m = WantKey then
        (if t = TRBrace \<and> m = DictStart then close_dict st
         else if key_of t \<noteq> None then set_key (the (key_of t)) st
         else None)
      else if m = WantColon then (if t = TColon then Some (WantValue, st) else None)
      else if m = AfterValue then
        (if t = TComma then after_comma st
         else if t = TRBrack then close_list st
         else if t = TRBrace then close_dict st
         else None)
      else None)"

fun run :: "(mode \<times> frame list) option \<Rightarrow> token list \<Rightarrow> (mode \<times> frame list) option" where
  "run None ts = None"
| "run (Some ms) [] = Some ms"
| "run (Some (m, st)) (t # ts) = run (step m st t) ts"

text \<open>The whole text is one value: nothing is open at the end.\<close>

fun whole_value :: "(mode \<times> frame list) option \<Rightarrow> exn + json" where
  "whole_value (Some (Finished v, [])) = Inr v"
| "whole_value r = Inl decode_error"

definition py_json_loads :: "string \<Rightarrow> exn + json" where
  "py_json_loads bytes =
     (if \<not> isascii bytes then Inl not_covered
      else bind_exn (lex bytes) (\<lambda>ts. whole_value (run (Some (WantValue, [])) ts)))"

subsection \<open>uuid.UUID\<close>

text \<open>The value of a hexadecimal digit, or 16 for another character.\<close>

definition hex_value :: "char \<Rightarrow> nat" where
  "hex_value ch =
     (if 48 \<le> (of_char ch :: nat) \<and> (of_char ch :: nat) \<le> 57 then of_char ch - 48
      else if 97 \<le> (of_char ch :: nat) \<and> (of_char ch :: nat) \<le> 102 then of_char ch - 87
      else if 65 \<le> (of_char ch :: nat) \<and> (of_char ch :: nat) \<le> 70 then of_char ch - 55
      else 16)"

definition hex_number :: "string \<Rightarrow> int" where
  "hex_number s = foldl (\<lambda>acc ch. 16 * acc + int (hex_value ch)) 0 s"

text \<open>The constructor on its first argument \<^verbatim>\<open>hex\<close>. A string with a colon or a brace
  (the prefixes and braces that the constructor removes), and a string of 32 characters
  that \<^verbatim>\<open>int\<close> may read although not all are hexadecimal digits (a sign, an underscore,
  a space, an \<open>x\<close>, a character beyond ASCII), are outside the instance.\<close>

fun py_uuid :: "json \<Rightarrow> exn + uuid" where
  "py_uuid (JStr s) =
     (if list_ex (\<lambda>ch. ch \<in> {CHR '':'', CHR ''{'', CHR ''}''}) s then Inl not_covered
      else let h = filter (\<lambda>ch. ch \<noteq> CHR ''-'') s in
        if length h \<noteq> 32 then Inl (PyExc ValueError ''badly formed hexadecimal UUID string'')
        else if list_all (\<lambda>ch. hex_value ch < 16) h then Inr (hex_number h)
        else if list_ex (\<lambda>ch. ch \<in> {CHR ''+'', CHR ''_'', CHR ''x'', CHR ''X''} \<or> is_ws ch
                   \<or> (of_char ch :: nat) \<ge> 128 \<or> (of_char ch :: nat) < 32) h
        then Inl not_covered
        else Inl (PyExc ValueError
               (''invalid literal for int() with base 16: '' @ repr_str h)))"
| "py_uuid JNull =
     Inl (PyExc TypeError
       ''one of the hex, bytes, bytes_le, fields, or int arguments must be given'')"
| "py_uuid v =
     Inl (PyExc AttributeError
       ([CHR 0x27] @ type_name v @ [CHR 0x27] @ '' object has no attribute '' @
        [CHR 0x27] @ ''replace'' @ [CHR 0x27]))"

definition py_lib :: stdlib where
  "py_lib = \<lparr>b64decode = py_b64decode, json_loads = py_json_loads, uuid_UUID = py_uuid\<rparr>"

section \<open>Example inputs\<close>

text \<open>A server that answers every request with 503 and a body that is not JSON.\<close>

definition unavailable :: response where
  "unavailable =
     \<lparr>status = 503, reason = Some ''Service Unavailable'', url_path = ''/session'',
      resp_json = Inl (PyExc ContentTypeError ''Attempt to decode JSON with unexpected mimetype''),
      resp_text = Inr ''upstream unavailable''\<rparr>"

definition three_attempts :: http_client where
  "three_attempts = \<lparr>max_attempts = 3, retry = False, retry_delay = 60\<rparr>"


text \<open>Error responses whose body is JSON, but not a JSON object: the library's
  \<^verbatim>\<open>resp.json()\<close> gives \<^verbatim>\<open>None\<close> on an empty body, and a list on an array.\<close>

definition unavailable_null :: response where
  "unavailable_null =
     \<lparr>status = 503, reason = Some ''Service Unavailable'', url_path = ''/session'',
      resp_json = Inr JNull, resp_text = Inr ''''\<rparr>"

definition rate_limited_array :: response where
  "rate_limited_array =
     \<lparr>status = 429, reason = Some ''Too Many Requests'', url_path = ''/session'',
      resp_json = Inr (JList []), resp_text = Inr ''[]''\<rparr>"

definition not_found_array :: response where
  "not_found_array =
     \<lparr>status = 404, reason = Some ''Not Found'', url_path = ''/session'',
      resp_json = Inr (JList [JStr ''no such player'']),
      resp_text = Inr ''[\"no such player\"]''\<rparr>"

text \<open>The answers of the lookup endpoints to an unknown player: 404 and 400, each with a
  JSON object as body.\<close>

definition not_found_object :: response where
  "not_found_object =
     \<lparr>status = 404, reason = Some ''Not Found'', url_path = ''/lookup'',
      resp_json = Inr (JDict [(''path'', JStr ''/lookup''),
                              (''errorMessage'', JStr ''Could not find any profile'')]),
      resp_text = Inr ''''\<rparr>"

definition bad_request_object :: response where
  "bad_request_object =
     \<lparr>status = 400, reason = Some ''Bad Request'', url_path = ''/lookup'',
      resp_json = Inr (JDict [(''error'', JStr ''BadRequestException'')]),
      resp_text = Inr ''''\<rparr>"

text \<open>A successful name lookup whose \<open>id\<close> is the empty string.\<close>

definition empty_id :: response where
  "empty_id =
     \<lparr>status = 200, reason = Some ''OK'', url_path = ''/lookup'',
      resp_json = Inr (JDict [(''id'', JStr ''''), (''name'', JStr ''Notch'')]),
      resp_text = Inr ''''\<rparr>"

definition notch_uuid :: uuid where
  "notch_uuid = 8777455215484550409597702120127638261"

text \<open>The raw profile document of the session server around a texture blob.\<close>

definition profile_doc :: "string \<Rightarrow> json" where
  "profile_doc blob =
     JDict [(''id'', JStr ''069a79f444e94726a5befca90e38aaf5''), (''name'', JStr ''Notch''),
            (''properties'', JList [JDict [(''name'', JStr ''textures''), (''value'', JStr blob)]])]"

text \<open>The example payload of the specification: a slim skin, no cape.\<close>

definition notch_text :: string where
  "notch_text =
     ''{\"profileId\":\"069a79f444e94726a5befca90e38aaf5\",\"timestamp\":'' @
     ''1,\"profileName\":\"Notch\",\"legacy\":false,\"textures\":{\"SKIN\":{\"'' @
     ''url\":\"http://x\",\"metadata\":{\"model\":\"slim\"}}}}''"

definition notch_blob :: string where
  "notch_blob =
     ''eyJwcm9maWxlSWQiOiIwNjlhNzlmNDQ0ZTk0NzI2YTViZWZjYTkwZTM4YWFmNSIsInRpbWVzdGFt'' @
     ''cCI6MSwicHJvZmlsZU5hbWUiOiJOb3RjaCIsImxlZ2FjeSI6ZmFsc2UsInRleHR1cmVzIjp7IlNL'' @
     ''SU4iOnsidXJsIjoiaHR0cDovL3giLCJtZXRhZGF0YSI6eyJtb2RlbCI6InNsaW0ifX19fQ==''"

definition notch_payload :: "(string \<times> json) list" where
  "notch_payload =
     [(''profileId'', JStr ''069a79f444e94726a5befca90e38aaf5''),
      (''timestamp'', JInt 1),
      (''profileName'', JStr ''Notch''),
      (''legacy'', JBool False),
      (''textures'', JDict [(''SKIN'', JDict [(''url'', JStr ''http://x''), (''metadata'', JDict [(''model'', JStr ''slim'')])])])]"

text \<open>A payload whose textures hold no skin.\<close>

definition no_skin_text :: string where
  "no_skin_text =
     ''{\"profileId\":\"069a79f444e94726a5befca90e38aaf5\",\"timestamp\":'' @
     ''1,\"profileName\":\"Notch\",\"textures\":{}}''"

definition no_skin_blob :: string where
  "no_skin_blob =
     ''eyJwcm9maWxlSWQiOiIwNjlhNzlmNDQ0ZTk0NzI2YTViZWZjYTkwZTM4YWFmNSIsInRpbWVzdGFt'' @
     ''cCI6MSwicHJvZmlsZU5hbWUiOiJOb3RjaCIsInRleHR1cmVzIjp7fX0=''"

definition no_skin_payload :: "(string \<times> json) list" where
  "no_skin_payload =
     [(''profileId'', JStr ''069a79f444e94726a5befca90e38aaf5''),
      (''timestamp'', JInt 1),
      (''profileName'', JStr ''Notch''),
      (''textures'', JDict [])]"

text \<open>A payload whose skin model is the empty string.\<close>

definition empty_model_text :: string where
  "empty_model_text =
     ''{\"profileId\":\"069a79f444e94726a5befca90e38aaf5\",\"timestamp\":'' @
     ''1,\"profileName\":\"Notch\",\"textures\":{\"SKIN\":{\"metadata\":{\"mod'' @
     ''el\":\"\"}}}}''"

definition empty_model_blob :: string where
  "empty_model_blob =
     ''eyJwcm9maWxlSWQiOiIwNjlhNzlmNDQ0ZTk0NzI2YTViZWZjYTkwZTM4YWFmNSIsInRpbWVzdGFt'' @
     ''cCI6MSwicHJvZmlsZU5hbWUiOiJOb3RjaCIsInRleHR1cmVzIjp7IlNLSU4iOnsibWV0YWRhdGEi'' @
     ''OnsibW9kZWwiOiIifX19fQ==''"

definition empty_model_payload :: "(string \<times> json) list" where
  "empty_model_payload =
     [(''profileId'', JStr ''069a79f444e94726a5befca90e38aaf5''),
      (''timestamp'', JInt 1),
      (''profileName'', JStr ''Notch''),
      (''textures'', JDict [(''SKIN'', JDict [(''metadata'', JDict [(''model'', JStr [])])])])]"

text \<open>A payload whose timestamp is a string and whose name is a number.\<close>

definition mistyped_text :: string where
  "mistyped_text =
     ''{\"profileId\":\"069a79f444e94726a5befca90e38aaf5\",\"timestamp\":'' @
     ''\"soon\",\"profileName\":7}''"

definition mistyped_blob :: string where
  "mistyped_blob =
     ''eyJwcm9maWxlSWQiOiIwNjlhNzlmNDQ0ZTk0NzI2YTViZWZjYTkwZTM4YWFmNSIsInRpbWVzdGFt'' @
     ''cCI6InNvb24iLCJwcm9maWxlTmFtZSI6N30=''"

definition mistyped_payload :: "(string \<times> json) list" where
  "mistyped_payload =
     [(''profileId'', JStr ''069a79f444e94726a5befca90e38aaf5''),
      (''timestamp'', JStr ''soon''),
      (''profileName'', JInt 7)]"

text \<open>A payload without a name.\<close>

definition no_name_text :: string where
  "no_name_text =
     ''{\"profileId\":\"069a79f444e94726a5befca90e38aaf5\",\"timestamp\":'' @
     ''1}''"

definition no_name_blob :: string where
  "no_name_blob =
     ''eyJwcm9maWxlSWQiOiIwNjlhNzlmNDQ0ZTk0NzI2YTViZWZjYTkwZTM4YWFmNSIsInRpbWVzdGFt'' @
     ''cCI6MX0=''"

definition no_name_payload :: "(string \<times> json) list" where
  "no_name_payload =
     [(''profileId'', JStr ''069a79f444e94726a5befca90e38aaf5''),
      (''timestamp'', JInt 1)]"

text \<open>A payload whose identifier is no UUID.\<close>

definition bad_uuid_text :: string where
  "bad_uuid_text =
     ''{\"profileId\":\"not-a-uuid\",\"timestamp\":1,\"profileName\":\"Notch'' @
     ''\"}''"

definition bad_uuid_blob :: string where
  "bad_uuid_blob =
     ''eyJwcm9maWxlSWQiOiJub3QtYS11dWlkIiwidGltZXN0YW1wIjoxLCJwcm9maWxlTmFtZSI6Ik5v'' @
     ''dGNoIn0=''"

definition bad_uuid_payload :: "(string \<times> json) list" where
  "bad_uuid_payload =
     [(''profileId'', JStr ''not-a-uuid''),
      (''timestamp'', JInt 1),
      (''profileName'', JStr ''Notch'')]"

text \<open>A payload that is cut off.\<close>

definition truncated_text :: string where
  "truncated_text =
     ''{\"profileId\":''"

definition truncated_blob :: string where
  "truncated_blob =
     ''eyJwcm9maWxlSWQiOg==''"


text \<open>A session that answers the first request with 503 and every later one with the
  successful lookup whose \<open>id\<close> is empty.\<close>

definition recovering :: session where
  "recovering m u kw n = (if n = 1 then unavailable else empty_id)"

section \<open>Properties of the HTTP client\<close>

lemma request_loop_attempts_le:
  "attempts (snd (request_loop c sess m u kw d xs)) \<le> length xs"
  by (induction xs)
     (auto simp: attempts_def maybe_retry_def Let_def
           split: sum.splits prod.splits bool.splits if_splits)

lemma maybe_retry_events_no_attempt:
  "maybe_retry c resp a = (b, evs) \<Longrightarrow> Attempt n \<notin> set evs"
  by (auto simp: maybe_retry_def Let_def split: if_splits)

lemma request_loop_attempt_numbers:
  "Attempt n \<in> set (snd (request_loop c sess m u kw d xs)) \<Longrightarrow> n \<in> set xs"
  by (induction xs)
     (auto simp: Let_def dest: maybe_retry_events_no_attempt
           split: sum.splits prod.splits bool.splits if_splits)

text \<open>
  C1. With \<open>max_attempts \<ge> 1\<close>, whatever the session answers and whatever the
  deserializer does, one call of \<^verbatim>\<open>_request\<close> issues at most \<open>max_attempts\<close>
  requests; each carries an attempt number between 1 and \<open>max_attempts\<close>; and
  \<^verbatim>\<open>_maybe_retry\<close> answers False at every attempt number that has reached
  \<open>max_attempts\<close>.
\<close>

theorem request_attempts_bounded:
  assumes "1 \<le> max_attempts c"
  shows "int (attempts (snd (request c sess m u kw d))) \<le> max_attempts c
       \<and> (\<forall>n. Attempt n \<in> set (snd (request c sess m u kw d))
              \<longrightarrow> 1 \<le> n \<and> n \<le> max_attempts c)
       \<and> (\<forall>resp attempt. attempt \<ge> max_attempts c
              \<longrightarrow> \<not> fst (maybe_retry c resp attempt))"
proof -
  have "attempts (snd (request c sess m u kw d)) \<le> length [1..max_attempts c]"
    unfolding request_def by (rule request_loop_attempts_le)
  with assms have bound: "int (attempts (snd (request c sess m u kw d))) \<le> max_attempts c"
    by simp
  have numbers: "\<forall>n. Attempt n \<in> set (snd (request c sess m u kw d))
                   \<longrightarrow> 1 \<le> n \<and> n \<le> max_attempts c"
    unfolding request_def using request_loop_attempt_numbers by fastforce
  have refuse: "\<forall>resp attempt. attempt \<ge> max_attempts c
                   \<longrightarrow> \<not> fst (maybe_retry c resp attempt)"
    by (simp add: maybe_retry_def)
  from bound numbers refuse show ?thesis by blast
qed

theorem request_attempts_bounded_witness:
  "1 \<le> max_attempts three_attempts
   \<and> attempts (snd (request three_attempts (\<lambda>m u kw n. unavailable) ''GET'' ''/session'' []
        resp_json)) = 3
   \<and> int (attempts (snd (request three_attempts (\<lambda>m u kw n. unavailable) ''GET'' ''/session'' []
        resp_json))) \<le> max_attempts three_attempts
   \<and> \<not> fst (maybe_retry three_attempts unavailable 3)"
proof -
  have h: "1 \<le> max_attempts three_attempts"
    by (simp add: three_attempts_def)
  have n: "attempts (snd (request three_attempts (\<lambda>m u kw n. unavailable) ''GET'' ''/session'' []
        resp_json)) = 3"
    by code_simp
  have m: "max_attempts three_attempts \<le> 3"
    by (simp add: three_attempts_def)
  from request_attempts_bounded [OF h, of "\<lambda>m u kw n. unavailable" "''GET''" "''/session''" "[]"
      resp_json] h n m
  show ?thesis by blast
qed




subsection \<open>The classifier on the bodies it handles\<close>

lemma error_detail_object:
  assumes "resp_json resp = Inr (JDict kvs)"
  shows "error_detail resp =
           Inr (case map_of kvs ''errorMessage'' of
                  Some a \<Rightarrow>
                    if truthy a then a
                    else (case map_of kvs ''error'' of
                            Some b \<Rightarrow> if truthy b then b
                                      else JStr (''HTTP '' @ str_int (status resp))
                          | None \<Rightarrow> JStr (''HTTP '' @ str_int (status resp)))
                | None \<Rightarrow>
                    (case map_of kvs ''error'' of
                       Some b \<Rightarrow> if truthy b then b
                                 else JStr (''HTTP '' @ str_int (status resp))
                     | None \<Rightarrow> JStr (''HTTP '' @ str_int (status resp))))"
  using assms by (simp add: error_detail_def split: option.splits)

lemma error_detail_not_json:
  assumes "resp_json resp = Inl exc" and "caught [JSONDecodeError, ContentTypeError] exc"
  shows "error_detail resp =
           Inr (JStr (''HTTP '' @ str_int (status resp) @ '' '' @
             (case reason resp of None \<Rightarrow> ''error'' | Some r \<Rightarrow> if r \<noteq> [] then r else ''error'') @
             '' for '' @ url_path resp))"
  using assms by (simp add: error_detail_def)

lemma error_detail_not_object:
  assumes "resp_json resp = Inr v" and "\<forall>kvs. v \<noteq> JDict kvs"
  shows "\<exists>msg. error_detail resp = Inl (PyExc AttributeError msg)"
  using assms by (cases v) (simp_all add: error_detail_def)

lemma raise_for_status_classified:
  assumes "error_detail resp = Inr detail"
  shows "raise_for_status resp =
           Mojang (if status resp = 400 then BadRequestK
                   else if status resp = 401 then UnauthorizedK
                   else if status resp = 403 then ForbiddenK
                   else if status resp = 404 then NotFoundK
                   else if status resp = 429 then TooManyRequestsK
                   else if status resp \<ge> 500 then ServerErrorK
                   else MojangErrorK)
             (status resp) detail"
  using assms
  by (simp add: raise_for_status_def STATUS_TO_ERROR_def BadRequest_def Unauthorized_def
        Forbidden_def NotFound_def TooManyRequests_def ServerError_def MojangError_def)

subsection \<open>Retries\<close>

lemma request_loop_not_retried:
  assumes "\<not> ok (sess m u kw n)"
    and "status (sess m u kw n) \<notin> {502, 503, 504}"
    and "status (sess m u kw n) = 429 \<longrightarrow> \<not> retry c"
  shows "request_loop c sess m u kw d (n # rest) =
           (Inl (raise_for_status (sess m u kw n)),
            Attempt n # (if n \<ge> max_attempts c then [] else [Drain]))"
  using assms by (auto simp: Let_def maybe_retry_def)

lemma request_loop_not_retried_delays:
  assumes "\<not> ok (sess m u kw n)"
    and "status (sess m u kw n) \<notin> {502, 503, 504}"
    and "status (sess m u kw n) = 429 \<longrightarrow> \<not> retry c"
  shows "attempts (snd (request_loop c sess m u kw d (n # rest))) = 1
       \<and> delays (snd (request_loop c sess m u kw d (n # rest))) = []"
  using assms
    request_loop_not_retried [where sess = sess and m = m and u = u and kw = kw and n = n
      and c = c and d = d and rest = rest]
  by (simp add: attempts_def delays_def List.map_filter_simps)

lemma request_three_times_unavailable:
  assumes "max_attempts c = 3" and "\<forall>n. status (sess m u kw n) = 503"
  shows "request c sess m u kw d =
           (Inl (raise_for_status (sess m u kw 3)),
            [Attempt 1, Drain, Sleep 1, Attempt 2, Drain, Sleep 2, Attempt 3])"
proof -
  have range: "[1..3] = [1, 2, (3::int)]"
    by code_simp
  from assms(2) have bad: "\<not> ok (sess m u kw n)" for n
    by (simp add: ok_def)
  show ?thesis
    using assms bad by (simp add: request_def range Let_def maybe_retry_def)
qed

lemma request_three_times_unavailable_error:
  assumes "max_attempts c = 3" and "\<forall>n. status (sess m u kw n) = 503"
    and "error_detail (sess m u kw 3) = Inr detail"
  shows "fst (request c sess m u kw d) = Inl (Mojang ServerErrorK 503 detail)
       \<and> attempts (snd (request c sess m u kw d)) = 3
       \<and> delays (snd (request c sess m u kw d)) = [1, 2]"
  using assms raise_for_status_classified [OF assms(3)]
    request_three_times_unavailable [where sess = sess and m = m and u = u and kw = kw
      and c = c and d = d]
  by (simp add: attempts_def delays_def List.map_filter_simps)

text \<open>
  C3. The claim holds for the retries and fails for the final error: with
  \<open>max_attempts = 3\<close> and every attempt answered by a 503 whose body is JSON but not a
  JSON object (here the empty body, which the library decodes to \<^verbatim>\<open>None\<close>), the call
  makes three requests and sleeps 1 and 2 between them, and then an \<open>AttributeError\<close>
  leaves \<^verbatim>\<open>_raise_for_status\<close> where \<open>ServerError\<close> with status 503 was to be raised.
\<close>

theorem request_unavailable_null_body:
  "request three_attempts (\<lambda>m u kw n. unavailable_null) ''GET'' ''/session'' [] resp_json =
     (Inl (PyExc AttributeError
        ([CHR 0x27] @ ''NoneType'' @ [CHR 0x27] @ '' object has no attribute '' @
         [CHR 0x27] @ ''get'' @ [CHR 0x27])),
      [Attempt 1, Drain, Sleep 1, Attempt 2, Drain, Sleep 2, Attempt 3])"
  by code_simp

text \<open>
  C4. A 429 with \<open>retry_on_ratelimit = false\<close> is surfaced at the first attempt, with no
  retry and no delay, but not always as the classified error: when its body is a JSON
  array, an \<open>AttributeError\<close> leaves \<^verbatim>\<open>_raise_for_status\<close> where
  \<open>TooManyRequests\<close> with status 429 was to be raised.
\<close>

theorem request_rate_limited_array_body:
  "\<not> retry three_attempts
   \<and> request three_attempts (\<lambda>m u kw n. rate_limited_array) ''GET'' ''/session'' [] resp_json =
       (Inl (PyExc AttributeError
          ([CHR 0x27] @ ''list'' @ [CHR 0x27] @ '' object has no attribute '' @
           [CHR 0x27] @ ''get'' @ [CHR 0x27])),
        [Attempt 1, Drain])"
  by code_simp

text \<open>
  C5. The detail derivation can fail: on a 404 whose body parses as JSON to an array, the
  lookup of \<open>errorMessage\<close> raises \<open>AttributeError\<close>, which the \<^verbatim>\<open>except\<close> clause does
  not catch, so \<^verbatim>\<open>_raise_for_status\<close> raises it in place of \<open>NotFound\<close>.
\<close>

theorem raise_for_status_array_body:
  "error_detail not_found_array =
     Inl (PyExc AttributeError
        ([CHR 0x27] @ ''list'' @ [CHR 0x27] @ '' object has no attribute '' @
         [CHR 0x27] @ ''get'' @ [CHR 0x27]))
   \<and> raise_for_status not_found_array =
       PyExc AttributeError
        ([CHR 0x27] @ ''list'' @ [CHR 0x27] @ '' object has no attribute '' @
         [CHR 0x27] @ ''get'' @ [CHR 0x27])"
  by code_simp

section \<open>Properties of the lookups\<close>

lemma request_first_success:
  assumes "1 \<le> max_attempts c" and "ok (sess m u kw 1)" and "d (sess m u kw 1) = Inr v"
  shows "request c sess m u kw d = (Inr (Some v), [Attempt 1])"
proof -
  from assms(1) have "[1..max_attempts c] = 1 # [2..max_attempts c]"
    by (simp add: upto_rec1)
  with assms(2,3) show ?thesis
    by (simp add: request_def)
qed

text \<open>
  C8. In each of the four lookups, when the request ends with the error \<open>NotFound\<close> (raised
  for status 404) or with the error \<open>BadRequest\<close> (raised for status 400), the lookup
  raises nothing and returns the absent result: \<^verbatim>\<open>None\<close> from \<^verbatim>\<open>get_uuid\<close>,
  \<^verbatim>\<open>get_username\<close> and \<^verbatim>\<open>get_profile\<close>, the empty dictionary from
  \<^verbatim>\<open>get_uuids\<close>. (The arguments are valid, so that the request is made.)
\<close>

theorem lookups_absent_on_not_found:
  assumes "k = NotFoundK \<or> k = BadRequestK"
  shows "(assert_valid_username username = None
          \<and> get_json c sess (UUID_API_URL @ ''/'' @ username) [] = (Inl (Mojang k st d), evs)
          \<longrightarrow> get_uuid lib c sess username = (Inr None, evs))
       \<and> (length names \<le> MAX_BATCH \<and> first_invalid names = None
          \<and> post_json c sess (API_BASE_URL @ ''/profiles/minecraft'')
                [(''json'', JList (map JStr names))] = (Inl (Mojang k st d), evs)
          \<longrightarrow> get_uuids lib c sess names = (Inr [], evs))
       \<and> (parse_uuid lib player = Inr uid
          \<and> get_json c sess
                (SESSIONSERVER_BASE_URL @ ''/session/minecraft/profile/'' @ uuid_hex uid) [] =
              (Inl (Mojang k st d), evs)
          \<longrightarrow> get_username lib c sess player = (Inr JNull, evs)
              \<and> get_profile lib c sess player = (Inr None, evs))"
proof -
  from assms have nf: "is_not_found (Mojang k st d)"
    by (auto simp: NOT_FOUND_ERRORS_def)
  show ?thesis
    using nf by (simp add: get_uuid_def get_uuids_def get_username_def get_profile_def)
qed

theorem lookups_absent_on_not_found_witness:
  "get_uuid py_lib three_attempts (\<lambda>m u kw n. not_found_object) ''Notch'' =
     (Inr None, [Attempt 1, Drain])
   \<and> get_uuid py_lib three_attempts (\<lambda>m u kw n. bad_request_object) ''Notch'' =
     (Inr None, [Attempt 1, Drain])
   \<and> get_uuids py_lib three_attempts (\<lambda>m u kw n. not_found_object) [''Notch'', ''jeb_''] =
     (Inr [], [Attempt 1, Drain])
   \<and> get_uuids py_lib three_attempts (\<lambda>m u kw n. bad_request_object) [''Notch'', ''jeb_''] =
     (Inr [], [Attempt 1, Drain])
   \<and> get_username py_lib three_attempts (\<lambda>m u kw n. not_found_object) (PlayerUUID notch_uuid) =
     (Inr JNull, [Attempt 1, Drain])
   \<and> get_username py_lib three_attempts (\<lambda>m u kw n. bad_request_object) (PlayerUUID notch_uuid) =
     (Inr JNull, [Attempt 1, Drain])
   \<and> get_profile py_lib three_attempts (\<lambda>m u kw n. not_found_object) (PlayerUUID notch_uuid) =
     (Inr None, [Attempt 1, Drain])
   \<and> get_profile py_lib three_attempts (\<lambda>m u kw n. bad_request_object) (PlayerUUID notch_uuid) =
     (Inr None, [Attempt 1, Drain])"
proof -
  have valid: "assert_valid_username ''Notch'' = None"
    "length [''Notch'', ''jeb_''] \<le> MAX_BATCH" "first_invalid [''Notch'', ''jeb_''] = None"
    by code_simp+
  have uid: "parse_uuid py_lib (PlayerUUID notch_uuid) = Inr notch_uuid"
    by simp
  have nf: "get_json three_attempts (\<lambda>m u kw n. not_found_object)
        (UUID_API_URL @ ''/'' @ ''Notch'') [] =
      (Inl (Mojang NotFoundK 404 (JStr ''Could not find any profile'')), [Attempt 1, Drain])"
    "post_json three_attempts (\<lambda>m u kw n. not_found_object)
        (API_BASE_URL @ ''/profiles/minecraft'')
        [(''json'', JList (map JStr [''Notch'', ''jeb_'']))] =
      (Inl (Mojang NotFoundK 404 (JStr ''Could not find any profile'')), [Attempt 1, Drain])"
    "get_json three_attempts (\<lambda>m u kw n. not_found_object)
        (SESSIONSERVER_BASE_URL @ ''/session/minecraft/profile/'' @ uuid_hex notch_uuid) [] =
      (Inl (Mojang NotFoundK 404 (JStr ''Could not find any profile'')), [Attempt 1, Drain])"
    by code_simp+
  have br: "get_json three_attempts (\<lambda>m u kw n. bad_request_object)
        (UUID_API_URL @ ''/'' @ ''Notch'') [] =
      (Inl (Mojang BadRequestK 400 (JStr ''BadRequestException'')), [Attempt 1, Drain])"
    "post_json three_attempts (\<lambda>m u kw n. bad_request_object)
        (API_BASE_URL @ ''/profiles/minecraft'')
        [(''json'', JList (map JStr [''Notch'', ''jeb_'']))] =
      (Inl (Mojang BadRequestK 400 (JStr ''BadRequestException'')), [Attempt 1, Drain])"
    "get_json three_attempts (\<lambda>m u kw n. bad_request_object)
        (SESSIONSERVER_BASE_URL @ ''/session/minecraft/profile/'' @ uuid_hex notch_uuid) [] =
      (Inl (Mojang BadRequestK 400 (JStr ''BadRequestException'')), [Attempt 1, Drain])"
    by code_simp+
  from lookups_absent_on_not_found
    [where k = NotFoundK and lib = py_lib and c = three_attempts
       and sess = "\<lambda>m u kw n. not_found_object" and username = "''Notch''"
       and names = "[''Notch'', ''jeb_'']" and player = "PlayerUUID notch_uuid"
       and uid = notch_uuid and st = 404 and d = "JStr ''Could not find any profile''"
       and evs = "[Attempt 1, Drain]"]
    valid uid nf
  have a: "get_uuid py_lib three_attempts (\<lambda>m u kw n. not_found_object) ''Notch'' =
       (Inr None, [Attempt 1, Drain])
     \<and> get_uuids py_lib three_attempts (\<lambda>m u kw n. not_found_object) [''Notch'', ''jeb_''] =
       (Inr [], [Attempt 1, Drain])
     \<and> get_username py_lib three_attempts (\<lambda>m u kw n. not_found_object)
         (PlayerUUID notch_uuid) = (Inr JNull, [Attempt 1, Drain])
     \<and> get_profile py_lib three_attempts (\<lambda>m u kw n. not_found_object)
         (PlayerUUID notch_uuid) = (Inr None, [Attempt 1, Drain])"
    by simp
  from lookups_absent_on_not_found
    [where k = BadRequestK and lib = py_lib and c = three_attempts
       and sess = "\<lambda>m u kw n. bad_request_object" and username = "''Notch''"
       and names = "[''Notch'', ''jeb_'']" and player = "PlayerUUID notch_uuid"
       and uid = notch_uuid and st = 400 and d = "JStr ''BadRequestException''"
       and evs = "[Attempt 1, Drain]"]
    valid uid br
  have b: "get_uuid py_lib three_attempts (\<lambda>m u kw n. bad_request_object) ''Notch'' =
       (Inr None, [Attempt 1, Drain])
     \<and> get_uuids py_lib three_attempts (\<lambda>m u kw n. bad_request_object) [''Notch'', ''jeb_''] =
       (Inr [], [Attempt 1, Drain])
     \<and> get_username py_lib three_attempts (\<lambda>m u kw n. bad_request_object)
         (PlayerUUID notch_uuid) = (Inr JNull, [Attempt 1, Drain])
     \<and> get_profile py_lib three_attempts (\<lambda>m u kw n. bad_request_object)
         (PlayerUUID notch_uuid) = (Inr None, [Attempt 1, Drain])"
    by simp
  from a b show ?thesis by blast
qed

lemma request_loop_returns_ok:
  "request_loop c sess m u kw d xs = (Inr (Some v), evs) \<Longrightarrow>
     \<exists>n \<in> set xs. ok (sess m u kw n) \<and> d (sess m u kw n) = Inr v"
  by (induction xs arbitrary: evs)
     (auto simp: Let_def split: sum.splits prod.splits bool.splits if_splits)

lemma get_json_returns_ok:
  assumes "get_json c sess u kw = (Inr (Some v), evs)"
  shows "\<exists>n. 1 \<le> n \<and> n \<le> max_attempts c \<and> status (sess ''GET'' u kw n) < 400
             \<and> resp_json (sess ''GET'' u kw n) = Inr v"
  using request_loop_returns_ok [OF assms [unfolded get_json_def request_def]]
  by (auto simp: ok_def)

text \<open>
  C10. When the request of the name lookup returns a JSON object whose \<open>id\<close> is bound to a
  falsy value (the empty string, \<^verbatim>\<open>null\<close>, \<^verbatim>\<open>false\<close>, zero, an empty list or
  object), \<^verbatim>\<open>get_uuid\<close> returns \<^verbatim>\<open>None\<close>, the result of a not-found status; it
  raises no \<open>MalformedResponse\<close>, and whatever the UUID constructor of \<open>lib\<close> would do with
  the value, it is not asked. The request returns a value when an attempt, the first or
  one after retries, is answered with a status that \<^verbatim>\<open>resp.ok\<close> accepts (every status
  200..299 is one) and a body that decodes: the value is that body
  (\<open>get_json_returns_ok\<close>, \<open>request_first_success\<close>).
\<close>

theorem get_uuid_falsy_id:
  assumes "assert_valid_username username = None"
    and "get_json c sess (UUID_API_URL @ ''/'' @ username) [] = (Inr (Some (JDict kvs)), evs)"
    and "map_of kvs ''id'' = Some raw" and "\<not> truthy raw"
  shows "get_uuid lib c sess username = (Inr None, evs)"
  using assms by (simp add: get_uuid_def)

theorem get_uuid_falsy_id_witness:
  "assert_valid_username ''Notch'' = None
   \<and> 200 \<le> status empty_id \<and> status empty_id < 300
   \<and> resp_json empty_id = Inr (JDict [(''id'', JStr []), (''name'', JStr ''Notch'')])
   \<and> \<not> truthy (JStr [])
   \<and> get_uuid py_lib three_attempts (\<lambda>m u kw n. empty_id) ''Notch'' = (Inr None, [Attempt 1])
   \<and> get_uuid py_lib three_attempts recovering ''Notch'' =
       (Inr None, [Attempt 1, Drain, Sleep 1, Attempt 2])"
proof -
  have valid: "assert_valid_username ''Notch'' = None"
    by code_simp
  have r: "200 \<le> status empty_id" "status empty_id < 300"
    "resp_json empty_id = Inr (JDict [(''id'', JStr []), (''name'', JStr ''Notch'')])"
    by (simp_all add: empty_id_def)
  have k: "map_of [(''id'', JStr []), (''name'', JStr ''Notch'')] ''id'' = Some (JStr [])"
    "\<not> truthy (JStr [])"
    by simp_all
  have first: "get_json three_attempts (\<lambda>m u kw n. empty_id) (UUID_API_URL @ ''/'' @ ''Notch'') [] =
      (Inr (Some (JDict [(''id'', JStr []), (''name'', JStr ''Notch'')])), [Attempt 1])"
    by code_simp
  have second: "get_json three_attempts recovering (UUID_API_URL @ ''/'' @ ''Notch'') [] =
      (Inr (Some (JDict [(''id'', JStr []), (''name'', JStr ''Notch'')])),
       [Attempt 1, Drain, Sleep 1, Attempt 2])"
    by code_simp
  from get_uuid_falsy_id [OF valid first k, of py_lib]
    get_uuid_falsy_id [OF valid second k, of py_lib] valid r k
  show ?thesis by simp
qed

section \<open>Properties of the profile decoder\<close>

lemma py_get_Inr_dict: "py_get v k dflt = Inr r \<Longrightarrow> \<exists>kvs. v = JDict kvs"
  by (cases v) simp_all

lemma profile_doc_value:
  "py_getitem (profile_doc blob) ''properties'' =
     Inr (JList [JDict [(''name'', JStr ''textures''), (''value'', JStr blob)]])"
  "py_index (JList [JDict [(''name'', JStr ''textures''), (''value'', JStr blob)]]) 0 =
     Inr (JDict [(''name'', JStr ''textures''), (''value'', JStr blob)])"
  "py_getitem (JDict [(''name'', JStr ''textures''), (''value'', JStr blob)]) ''value'' =
     Inr (JStr blob)"
  by (simp_all add: profile_doc_def seq_position_def)

lemma parse_profile_decoded:
  assumes path: "py_getitem data ''properties'' = Inr props" "py_index props 0 = Inr prop"
      "py_getitem prop ''value'' = Inr val"
    and blob: "b64decode lib val = Inr bytes" "json_loads lib bytes = Inr (JDict kvs)"
    and pid: "map_of kvs ''profileId'' = Some pid" "uuid_UUID lib pid = Inr uid"
    and ts: "map_of kvs ''timestamp'' = Some ts"
    and nm: "map_of kvs ''profileName'' = Some nm"
    and tex: "py_get (JDict kvs) ''textures'' (JDict []) = Inr (JDict tx)"
    and skin: "py_get (JDict tx) ''SKIN'' (JDict []) = Inr (JDict sk)"
    and meta: "py_get (JDict sk) ''metadata'' (JDict []) = Inr (JDict md)"
    and cape: "py_get (JDict tx) ''CAPE'' (JDict []) = Inr (JDict cp)"
  shows "parse_profile lib data =
           Inr \<lparr>id' = uid, timestamp = ts, name = nm,
                is_legacy_profile = (case map_of kvs ''legacy'' of None \<Rightarrow> False | Some l \<Rightarrow> truthy l),
                skin_variant = (case map_of md ''model'' of None \<Rightarrow> JStr ''classic'' | Some m \<Rightarrow> m),
                skin_url = (case map_of sk ''url'' of None \<Rightarrow> JNull | Some u \<Rightarrow> u),
                cape_url = (case map_of cp ''url'' of None \<Rightarrow> JNull | Some u \<Rightarrow> u)\<rparr>"
proof -
  have dec: "decode_textures lib data = Inr (JDict kvs)"
    using path blob by (simp add: decode_textures_def bind_exn_def)
  have build: "build_profile lib (JDict kvs) (JDict tx) (JDict sk) =
           Inr \<lparr>id' = uid, timestamp = ts, name = nm,
                is_legacy_profile = (case map_of kvs ''legacy'' of None \<Rightarrow> False | Some l \<Rightarrow> truthy l),
                skin_variant = (case map_of md ''model'' of None \<Rightarrow> JStr ''classic'' | Some m \<Rightarrow> m),
                skin_url = (case map_of sk ''url'' of None \<Rightarrow> JNull | Some u \<Rightarrow> u),
                cape_url = (case map_of cp ''url'' of None \<Rightarrow> JNull | Some u \<Rightarrow> u)\<rparr>"
    using pid ts nm meta cape
    by (auto simp: build_profile_def bind_exn_def split: option.splits)
  show ?thesis
    using dec tex skin build by (simp add: parse_profile_def bind_exn_def)
qed

lemma profile_doc_parses:
  assumes "b64decode lib (JStr blob) = Inr bytes" and "json_loads lib bytes = Inr (JDict kvs)"
    and "map_of kvs ''profileId'' = Some pid" and "uuid_UUID lib pid = Inr uid"
    and "map_of kvs ''timestamp'' = Some ts"
    and "map_of kvs ''profileName'' = Some nm"
    and "py_get (JDict kvs) ''textures'' (JDict []) = Inr (JDict tx)"
    and "py_get (JDict tx) ''SKIN'' (JDict []) = Inr (JDict sk)"
    and "py_get (JDict sk) ''metadata'' (JDict []) = Inr (JDict md)"
    and "py_get (JDict tx) ''CAPE'' (JDict []) = Inr (JDict cp)"
  shows "parse_profile lib (profile_doc blob) =
           Inr \<lparr>id' = uid, timestamp = ts, name = nm,
                is_legacy_profile = (case map_of kvs ''legacy'' of None \<Rightarrow> False | Some l \<Rightarrow> truthy l),
                skin_variant = (case map_of md ''model'' of None \<Rightarrow> JStr ''classic'' | Some m \<Rightarrow> m),
                skin_url = (case map_of sk ''url'' of None \<Rightarrow> JNull | Some u \<Rightarrow> u),
                cape_url = (case map_of cp ''url'' of None \<Rightarrow> JNull | Some u \<Rightarrow> u)\<rparr>"
  by (rule parse_profile_decoded [OF profile_doc_value assms])

subsection \<open>The example payloads, decoded by the instance of the library\<close>

lemma notch_uuid_parses:
  "uuid_UUID py_lib (JStr ''069a79f444e94726a5befca90e38aaf5'') = Inr notch_uuid"
  by code_simp

lemma not_a_uuid:
  "uuid_UUID py_lib (JStr ''not-a-uuid'') =
     Inl (PyExc ValueError ''badly formed hexadecimal UUID string'')"
  by code_simp

lemma notch_blob_decodes: "b64decode py_lib (JStr notch_blob) = Inr notch_text"
  by code_simp

lemma notch_text_loads: "json_loads py_lib notch_text = Inr (JDict notch_payload)"
  by code_simp

lemma no_skin_blob_decodes: "b64decode py_lib (JStr no_skin_blob) = Inr no_skin_text"
  by code_simp

lemma no_skin_text_loads: "json_loads py_lib no_skin_text = Inr (JDict no_skin_payload)"
  by code_simp

lemma empty_model_blob_decodes: "b64decode py_lib (JStr empty_model_blob) = Inr empty_model_text"
  by code_simp

lemma empty_model_text_loads:
  "json_loads py_lib empty_model_text = Inr (JDict empty_model_payload)"
  by code_simp

lemma mistyped_blob_decodes: "b64decode py_lib (JStr mistyped_blob) = Inr mistyped_text"
  by code_simp

lemma mistyped_text_loads: "json_loads py_lib mistyped_text = Inr (JDict mistyped_payload)"
  by code_simp

lemma no_name_blob_decodes: "b64decode py_lib (JStr no_name_blob) = Inr no_name_text"
  by code_simp

lemma no_name_text_loads: "json_loads py_lib no_name_text = Inr (JDict no_name_payload)"
  by code_simp

lemma bad_uuid_blob_decodes: "b64decode py_lib (JStr bad_uuid_blob) = Inr bad_uuid_text"
  by code_simp

lemma bad_uuid_text_loads: "json_loads py_lib bad_uuid_text = Inr (JDict bad_uuid_payload)"
  by code_simp

lemma truncated_blob_decodes: "b64decode py_lib (JStr truncated_blob) = Inr truncated_text"
  by code_simp

lemma truncated_text_fails:
  "json_loads py_lib truncated_text = Inl (PyExc JSONDecodeError ''Expecting value'')"
  by code_simp

lemma bad_padding:
  "b64decode py_lib (JStr ''abc'') = Inl (PyExc BinasciiError ''Incorrect padding'')"
  by code_simp

lemma notch_profile:
  "parse_profile py_lib (profile_doc notch_blob) =
     Inr \<lparr>id' = notch_uuid, timestamp = JInt 1, name = JStr ''Notch'',
          is_legacy_profile = False, skin_variant = JStr ''slim'',
          skin_url = JStr ''http://x'', cape_url = JNull\<rparr>"
proof -
  have fields: "map_of notch_payload ''profileId'' = Some (JStr ''069a79f444e94726a5befca90e38aaf5'')"
    "map_of notch_payload ''timestamp'' = Some (JInt 1)"
    "map_of notch_payload ''profileName'' = Some (JStr ''Notch'')"
    "map_of notch_payload ''legacy'' = Some (JBool False)"
    by (simp_all add: notch_payload_def)
  have tex: "py_get (JDict notch_payload) ''textures'' (JDict []) =
      Inr (JDict [(''SKIN'', JDict [(''url'', JStr ''http://x''),
                                     (''metadata'', JDict [(''model'', JStr ''slim'')])])])"
    by (simp add: notch_payload_def)
  have skin: "py_get (JDict [(''SKIN'', JDict [(''url'', JStr ''http://x''),
                  (''metadata'', JDict [(''model'', JStr ''slim'')])])]) ''SKIN'' (JDict []) =
      Inr (JDict [(''url'', JStr ''http://x''), (''metadata'', JDict [(''model'', JStr ''slim'')])])"
    by simp
  have meta: "py_get (JDict [(''url'', JStr ''http://x''),
                  (''metadata'', JDict [(''model'', JStr ''slim'')])]) ''metadata'' (JDict []) =
      Inr (JDict [(''model'', JStr ''slim'')])"
    by simp
  have cape: "py_get (JDict [(''SKIN'', JDict [(''url'', JStr ''http://x''),
                  (''metadata'', JDict [(''model'', JStr ''slim'')])])]) ''CAPE'' (JDict []) =
      Inr (JDict [])"
    by simp
  from profile_doc_parses [OF notch_blob_decodes notch_text_loads fields(1) notch_uuid_parses
      fields(2,3) tex skin meta cape] fields(4)
  show ?thesis by simp
qed

subsection \<open>Decoding a well-formed payload\<close>

text \<open>
  C6. Let \<open>properties[0].value\<close> of the raw document be the base64 text of a JSON
  object \<open>kvs\<close> that has \<open>profileId\<close> (accepted by the UUID constructor), \<open>timestamp\<close>
  and \<open>profileName\<close>, and in which \<open>textures\<close>, its \<open>SKIN\<close>, the skin's \<open>metadata\<close>
  and its \<open>CAPE\<close> are each absent or an object. Then decoding yields the profile whose
  fields are those of the payload: \<open>id\<close> the parsed \<open>profileId\<close>, \<open>name\<close> the
  \<open>profileName\<close>, \<open>is_legacy_profile\<close> the truth value of \<open>legacy\<close> (false when absent),
  \<open>skin_url\<close> and \<open>skin_variant\<close> from \<open>textures.SKIN\<close> (\<^verbatim>\<open>None\<close> and \<open>classic\<close> when
  absent), \<open>cape_url\<close> from \<open>textures.CAPE.url\<close>. Without a \<open>SKIN\<close> key the profile has
  \<open>skin_url = None\<close> and \<open>skin_variant = classic\<close>. The witness is the example payload of
  the specification, and the payload without a skin.
\<close>

theorem parse_profile_well_formed:
  assumes path: "py_getitem data ''properties'' = Inr props" "py_index props 0 = Inr prop"
      "py_getitem prop ''value'' = Inr val"
    and blob: "b64decode lib val = Inr bytes" "json_loads lib bytes = Inr (JDict kvs)"
    and pid: "map_of kvs ''profileId'' = Some pid" "uuid_UUID lib pid = Inr uid"
    and ts: "map_of kvs ''timestamp'' = Some ts"
    and nm: "map_of kvs ''profileName'' = Some nm"
    and tex: "py_get (JDict kvs) ''textures'' (JDict []) = Inr (JDict tx)"
    and skin: "py_get (JDict tx) ''SKIN'' (JDict []) = Inr (JDict sk)"
    and meta: "py_get (JDict sk) ''metadata'' (JDict []) = Inr (JDict md)"
    and cape: "py_get (JDict tx) ''CAPE'' (JDict []) = Inr (JDict cp)"
  shows "parse_profile lib data =
           Inr \<lparr>id' = uid, timestamp = ts, name = nm,
                is_legacy_profile = (case map_of kvs ''legacy'' of None \<Rightarrow> False | Some l \<Rightarrow> truthy l),
                skin_variant = (case map_of md ''model'' of None \<Rightarrow> JStr ''classic'' | Some m \<Rightarrow> m),
                skin_url = (case map_of sk ''url'' of None \<Rightarrow> JNull | Some u \<Rightarrow> u),
                cape_url = (case map_of cp ''url'' of None \<Rightarrow> JNull | Some u \<Rightarrow> u)\<rparr>
       \<and> (map_of tx ''SKIN'' = None \<longrightarrow>
            (\<exists>p. parse_profile lib data = Inr p \<and> skin_url p = JNull
                 \<and> skin_variant p = JStr ''classic''))"
proof -
  note main = parse_profile_decoded [OF assms]
  have "sk = [] \<and> md = []" if "map_of tx ''SKIN'' = None"
    using that skin meta by auto
  with main show ?thesis by auto
qed

theorem parse_profile_well_formed_witness:
  "parse_profile py_lib (profile_doc notch_blob) =
     Inr \<lparr>id' = notch_uuid, timestamp = JInt 1, name = JStr ''Notch'',
          is_legacy_profile = False, skin_variant = JStr ''slim'',
          skin_url = JStr ''http://x'', cape_url = JNull\<rparr>
   \<and> map_of [] ''SKIN'' = (None :: json option)
   \<and> parse_profile py_lib (profile_doc no_skin_blob) =
     Inr \<lparr>id' = notch_uuid, timestamp = JInt 1, name = JStr ''Notch'',
          is_legacy_profile = False, skin_variant = JStr ''classic'',
          skin_url = JNull, cape_url = JNull\<rparr>"
proof -
  have fields: "map_of notch_payload ''profileId'' = Some (JStr ''069a79f444e94726a5befca90e38aaf5'')"
    "map_of notch_payload ''timestamp'' = Some (JInt 1)"
    "map_of notch_payload ''profileName'' = Some (JStr ''Notch'')"
    "map_of notch_payload ''legacy'' = Some (JBool False)"
    by (simp_all add: notch_payload_def)
  have tex: "py_get (JDict notch_payload) ''textures'' (JDict []) =
      Inr (JDict [(''SKIN'', JDict [(''url'', JStr ''http://x''),
                                     (''metadata'', JDict [(''model'', JStr ''slim'')])])])"
    by (simp add: notch_payload_def)
  have skin: "py_get (JDict [(''SKIN'', JDict [(''url'', JStr ''http://x''),
                  (''metadata'', JDict [(''model'', JStr ''slim'')])])]) ''SKIN'' (JDict []) =
      Inr (JDict [(''url'', JStr ''http://x''), (''metadata'', JDict [(''model'', JStr ''slim'')])])"
    by simp
  have meta: "py_get (JDict [(''url'', JStr ''http://x''),
                  (''metadata'', JDict [(''model'', JStr ''slim'')])]) ''metadata'' (JDict []) =
      Inr (JDict [(''model'', JStr ''slim'')])"
    by simp
  have cape: "py_get (JDict [(''SKIN'', JDict [(''url'', JStr ''http://x''),
                  (''metadata'', JDict [(''model'', JStr ''slim'')])])]) ''CAPE'' (JDict []) =
      Inr (JDict [])"
    by simp
  from parse_profile_well_formed [OF profile_doc_value notch_blob_decodes notch_text_loads
      fields(1) notch_uuid_parses fields(2,3) tex skin meta cape] fields(4)
  have notch: "parse_profile py_lib (profile_doc notch_blob) =
     Inr \<lparr>id' = notch_uuid, timestamp = JInt 1, name = JStr ''Notch'',
          is_legacy_profile = False, skin_variant = JStr ''slim'',
          skin_url = JStr ''http://x'', cape_url = JNull\<rparr>"
    by simp
  have fields': "map_of no_skin_payload ''profileId'' = Some (JStr ''069a79f444e94726a5befca90e38aaf5'')"
    "map_of no_skin_payload ''timestamp'' = Some (JInt 1)"
    "map_of no_skin_payload ''profileName'' = Some (JStr ''Notch'')"
    "map_of no_skin_payload ''legacy'' = None"
    by (simp_all add: no_skin_payload_def)
  have tex': "py_get (JDict no_skin_payload) ''textures'' (JDict []) = Inr (JDict [])"
    by (simp add: no_skin_payload_def)
  have empty: "py_get (JDict []) ''SKIN'' (JDict []) = Inr (JDict [])"
    "py_get (JDict []) ''metadata'' (JDict []) = Inr (JDict [])"
    "py_get (JDict []) ''CAPE'' (JDict []) = Inr (JDict [])"
    by simp_all
  from parse_profile_well_formed [OF profile_doc_value no_skin_blob_decodes no_skin_text_loads
      fields'(1) notch_uuid_parses fields'(2,3) tex' empty] fields'(4)
  have no_skin: "parse_profile py_lib (profile_doc no_skin_blob) =
     Inr \<lparr>id' = notch_uuid, timestamp = JInt 1, name = JStr ''Notch'',
          is_legacy_profile = False, skin_variant = JStr ''classic'',
          skin_url = JNull, cape_url = JNull\<rparr>"
    by simp
  from notch no_skin show ?thesis by simp
qed

subsection \<open>The skin variant\<close>

text \<open>
  C9 as it is stated fails: the decoder takes the model as the payload has it, so a payload
  whose \<open>textures.SKIN.metadata.model\<close> is the empty string gives a profile whose
  \<open>skin_variant\<close> is the empty string.
\<close>

theorem empty_skin_variant:
  "parse_profile py_lib (profile_doc empty_model_blob) =
     Inr \<lparr>id' = notch_uuid, timestamp = JInt 1, name = JStr ''Notch'',
          is_legacy_profile = False, skin_variant = JStr [],
          skin_url = JNull, cape_url = JNull\<rparr>"
proof -
  have fields: "map_of empty_model_payload ''profileId'' = Some (JStr ''069a79f444e94726a5befca90e38aaf5'')"
    "map_of empty_model_payload ''timestamp'' = Some (JInt 1)"
    "map_of empty_model_payload ''profileName'' = Some (JStr ''Notch'')"
    "map_of empty_model_payload ''legacy'' = None"
    by (simp_all add: empty_model_payload_def)
  have tex: "py_get (JDict empty_model_payload) ''textures'' (JDict []) =
      Inr (JDict [(''SKIN'', JDict [(''metadata'', JDict [(''model'', JStr [])])])])"
    by (simp add: empty_model_payload_def)
  have skin: "py_get (JDict [(''SKIN'', JDict [(''metadata'', JDict [(''model'', JStr [])])])])
        ''SKIN'' (JDict []) = Inr (JDict [(''metadata'', JDict [(''model'', JStr [])])])"
    by simp
  have meta: "py_get (JDict [(''metadata'', JDict [(''model'', JStr [])])]) ''metadata''
        (JDict []) = Inr (JDict [(''model'', JStr [])])"
    by simp
  have cape: "py_get (JDict [(''SKIN'', JDict [(''metadata'', JDict [(''model'', JStr [])])])])
        ''CAPE'' (JDict []) = Inr (JDict [])"
    by simp
  from profile_doc_parses [OF empty_model_blob_decodes empty_model_text_loads fields(1)
      notch_uuid_parses fields(2,3) tex skin meta cape] fields(4)
  show ?thesis by simp
qed

text \<open>
  C9, amended. For every profile that decoding produces, the payload is an object whose
  \<open>textures\<close>, \<open>SKIN\<close> and \<open>metadata\<close> are each absent or an object, and \<open>skin_variant\<close>
  is \<open>classic\<close> when the metadata has no \<open>model\<close>, and otherwise the value of
  \<open>textures.SKIN.metadata.model\<close>, whatever it is.
\<close>

theorem parse_profile_skin_variant:
  assumes "parse_profile lib data = Inr p"
  shows "\<exists>kvs tx sk md.
           decode_textures lib data = Inr (JDict kvs)
         \<and> py_get (JDict kvs) ''textures'' (JDict []) = Inr (JDict tx)
         \<and> py_get (JDict tx) ''SKIN'' (JDict []) = Inr (JDict sk)
         \<and> py_get (JDict sk) ''metadata'' (JDict []) = Inr (JDict md)
         \<and> skin_variant p = (case map_of md ''model'' of None \<Rightarrow> JStr ''classic'' | Some m \<Rightarrow> m)"
proof -
  from assms obtain decoded where dec: "decode_textures lib data = Inr decoded"
    by (auto simp: parse_profile_def split: sum.splits if_splits)
  from assms dec obtain textures where tex: "py_get decoded ''textures'' (JDict []) = Inr textures"
    by (auto simp: parse_profile_def bind_exn_def split: sum.splits if_splits)
  from assms dec tex obtain skin where skin: "py_get textures ''SKIN'' (JDict []) = Inr skin"
    by (auto simp: parse_profile_def bind_exn_def split: sum.splits if_splits)
  from assms dec tex skin have build: "build_profile lib decoded textures skin = Inr p"
    by (auto simp: parse_profile_def bind_exn_def split: sum.splits if_splits)
  from build obtain metadata where meta: "py_get skin ''metadata'' (JDict []) = Inr metadata"
    and model: "py_get metadata ''model'' (JStr ''classic'') = Inr (skin_variant p)"
    by (auto simp: build_profile_def bind_exn_def split: sum.splits)
  from tex obtain kvs where k: "decoded = JDict kvs" using py_get_Inr_dict by blast
  from skin obtain tx where t: "textures = JDict tx" using py_get_Inr_dict by blast
  from meta obtain sk where s: "skin = JDict sk" using py_get_Inr_dict by blast
  from model obtain md where m: "metadata = JDict md" using py_get_Inr_dict by blast
  from model m have "skin_variant p = (case map_of md ''model'' of None \<Rightarrow> JStr ''classic'' | Some m \<Rightarrow> m)"
    by (simp split: option.splits)
  with dec tex skin meta k t s m show ?thesis by blast
qed

theorem parse_profile_skin_variant_witness:
  "parse_profile py_lib (profile_doc notch_blob) =
     Inr \<lparr>id' = notch_uuid, timestamp = JInt 1, name = JStr ''Notch'',
          is_legacy_profile = False, skin_variant = JStr ''slim'',
          skin_url = JStr ''http://x'', cape_url = JNull\<rparr>
   \<and> (\<exists>kvs tx sk md.
         decode_textures py_lib (profile_doc notch_blob) = Inr (JDict kvs)
       \<and> py_get (JDict kvs) ''textures'' (JDict []) = Inr (JDict tx)
       \<and> py_get (JDict tx) ''SKIN'' (JDict []) = Inr (JDict sk)
       \<and> py_get (JDict sk) ''metadata'' (JDict []) = Inr (JDict md)
       \<and> JStr ''slim'' = (case map_of md ''model'' of None \<Rightarrow> JStr ''classic'' | Some m \<Rightarrow> m))"
  using parse_profile_skin_variant [OF notch_profile] notch_profile by simp

subsection \<open>Structural problems\<close>

text \<open>
  C7 as it is stated fails: the decoder checks no type of \<open>timestamp\<close> or
  \<open>profileName\<close>. A payload whose timestamp is a string and whose name is a number is
  decoded to a profile with these values; no \<open>MalformedResponse\<close> is raised.
\<close>

theorem mistyped_fields_accepted:
  "parse_profile py_lib (profile_doc mistyped_blob) =
     Inr \<lparr>id' = notch_uuid, timestamp = JStr ''soon'', name = JInt 7,
          is_legacy_profile = False, skin_variant = JStr ''classic'',
          skin_url = JNull, cape_url = JNull\<rparr>
   \<and> \<not> is_malformed (parse_profile py_lib (profile_doc mistyped_blob))"
proof -
  have fields: "map_of mistyped_payload ''profileId'' = Some (JStr ''069a79f444e94726a5befca90e38aaf5'')"
    "map_of mistyped_payload ''timestamp'' = Some (JStr ''soon'')"
    "map_of mistyped_payload ''profileName'' = Some (JInt 7)"
    "map_of mistyped_payload ''legacy'' = None"
    by (simp_all add: mistyped_payload_def)
  have tex: "py_get (JDict mistyped_payload) ''textures'' (JDict []) = Inr (JDict [])"
    by (simp add: mistyped_payload_def)
  have empty: "py_get (JDict []) ''SKIN'' (JDict []) = Inr (JDict [])"
    "py_get (JDict []) ''metadata'' (JDict []) = Inr (JDict [])"
    "py_get (JDict []) ''CAPE'' (JDict []) = Inr (JDict [])"
    by simp_all
  from profile_doc_parses [OF mistyped_blob_decodes mistyped_text_loads fields(1)
      notch_uuid_parses fields(2,3) tex empty] fields(4)
  show ?thesis by simp
qed

text \<open>
  C7, amended. Profile decoding fails with \<open>MalformedResponse\<close> (status 0) in each of
  these cases. The raw document is an object and \<open>properties\<close> is missing, or is an
  object, an empty list or an empty string, or its first entry is an object without
  \<open>value\<close>. Or \<open>properties[0].value\<close> is found and the base64 decoder raises
  \<open>binascii.Error\<close>, or the JSON decoder raises \<open>JSONDecodeError\<close> on the decoded bytes
  (or either raises another class that the \<^verbatim>\<open>except\<close> clause names). Or the payload is
  an object, its \<open>textures\<close> absent or an object, and \<open>profileId\<close> is missing, or the
  UUID constructor rejects it with a \<open>ValueError\<close> (or a \<open>KeyError\<close>), or the
  constructor accepts it and \<open>timestamp\<close> or \<open>profileName\<close> is missing. The types of
  \<open>timestamp\<close> and \<open>profileName\<close> are not checked.
\<close>

theorem parse_profile_structural_failure:
  "(data = JDict d
      \<and> (map_of d ''properties'' = None
         \<or> (\<exists>pd. map_of d ''properties'' = Some (JDict pd))
         \<or> map_of d ''properties'' = Some (JList [])
         \<or> map_of d ''properties'' = Some (JStr [])
         \<or> (map_of d ''properties'' = Some (JList (JDict q # rest)) \<and> map_of q ''value'' = None))
      \<longrightarrow> is_malformed (parse_profile lib data))
   \<and> (data = JDict d \<and> map_of d ''properties'' = Some (JList (JDict q # rest))
      \<and> map_of q ''value'' = Some v
      \<and> ((\<exists>exc. b64decode lib v = Inl exc
               \<and> caught [KeyError, IndexError, JSONDecodeError, BinasciiError] exc)
         \<or> (\<exists>bytes exc. b64decode lib v = Inr bytes
               \<and> json_loads lib bytes = Inl exc
               \<and> caught [KeyError, IndexError, JSONDecodeError, BinasciiError] exc)
         \<or> (\<exists>bytes kvs tx. b64decode lib v = Inr bytes
               \<and> json_loads lib bytes = Inr (JDict kvs)
               \<and> py_get (JDict kvs) ''textures'' (JDict []) = Inr (JDict tx)
               \<and> (map_of kvs ''profileId'' = None
                  \<or> (\<exists>pid exc. map_of kvs ''profileId'' = Some pid
                        \<and> uuid_UUID lib pid = Inl exc \<and> caught [KeyError, ValueError] exc)
                  \<or> (\<exists>pid uid. map_of kvs ''profileId'' = Some pid
                        \<and> uuid_UUID lib pid = Inr uid
                        \<and> (map_of kvs ''timestamp'' = None
                           \<or> map_of kvs ''profileName'' = None)))))
      \<longrightarrow> is_malformed (parse_profile lib data))"
proof -
  have first: "is_malformed (parse_profile lib data)"
    if "data = JDict d" and "map_of d ''properties'' = None
         \<or> (\<exists>pd. map_of d ''properties'' = Some (JDict pd))
         \<or> map_of d ''properties'' = Some (JList [])
         \<or> map_of d ''properties'' = Some (JStr [])
         \<or> (map_of d ''properties'' = Some (JList (JDict q # rest)) \<and> map_of q ''value'' = None)"
    using that
    by (auto simp: parse_profile_def decode_textures_def bind_exn_def seq_position_def
          MalformedResponse_def)
  have found: "decode_textures lib data = bind_exn (b64decode lib v) (json_loads lib)"
    if "data = JDict d" and "map_of d ''properties'' = Some (JList (JDict q # rest))"
      and "map_of q ''value'' = Some v"
    using that by (simp add: decode_textures_def bind_exn_def seq_position_def)
  have b64: "is_malformed (parse_profile lib data)"
    if "decode_textures lib data = bind_exn (b64decode lib v) (json_loads lib)"
      and "b64decode lib v = Inl exc"
      and "caught [KeyError, IndexError, JSONDecodeError, BinasciiError] exc" for exc
    using that by (simp add: parse_profile_def bind_exn_def MalformedResponse_def)
  have js: "is_malformed (parse_profile lib data)"
    if "decode_textures lib data = bind_exn (b64decode lib v) (json_loads lib)"
      and "b64decode lib v = Inr bytes" and "json_loads lib bytes = Inl exc"
      and "caught [KeyError, IndexError, JSONDecodeError, BinasciiError] exc"
    for bytes exc
    using that by (simp add: parse_profile_def bind_exn_def MalformedResponse_def)
  have field: "is_malformed (parse_profile lib data)"
    if "decode_textures lib data = bind_exn (b64decode lib v) (json_loads lib)"
      and "b64decode lib v = Inr bytes" and "json_loads lib bytes = Inr (JDict kvs)"
      and "py_get (JDict kvs) ''textures'' (JDict []) = Inr (JDict tx)"
      and "map_of kvs ''profileId'' = None
           \<or> (\<exists>pid exc. map_of kvs ''profileId'' = Some pid
                 \<and> uuid_UUID lib pid = Inl exc \<and> caught [KeyError, ValueError] exc)
           \<or> (\<exists>pid uid. map_of kvs ''profileId'' = Some pid
                 \<and> uuid_UUID lib pid = Inr uid
                 \<and> (map_of kvs ''timestamp'' = None \<or> map_of kvs ''profileName'' = None))"
    for bytes kvs tx
  proof -
    from that(1-3) have dec: "decode_textures lib data = Inr (JDict kvs)"
      by (simp add: bind_exn_def)
    obtain skin where sk: "py_get (JDict tx) ''SKIN'' (JDict []) = Inr skin"
      by simp
    have "\<exists>exc. build_profile lib (JDict kvs) (JDict tx) skin = Inl exc
             \<and> caught [KeyError, ValueError] exc"
      using that(5)
      by (cases "map_of kvs ''timestamp''") (auto simp: build_profile_def bind_exn_def)
    then obtain exc where b: "build_profile lib (JDict kvs) (JDict tx) skin = Inl exc"
      and c: "caught [KeyError, ValueError] exc"
      by blast
    from dec that(4) sk b c show ?thesis
      by (simp add: parse_profile_def bind_exn_def MalformedResponse_def del: py_get.simps)
  qed
  show ?thesis
    using first found b64 js field by blast
qed

theorem parse_profile_structural_failure_witness:
  "is_malformed (parse_profile py_lib (JDict []))
   \<and> is_malformed (parse_profile py_lib (JDict [(''properties'', JDict [])]))
   \<and> is_malformed (parse_profile py_lib (JDict [(''properties'', JList [])]))
   \<and> is_malformed (parse_profile py_lib (JDict [(''properties'', JStr [])]))
   \<and> is_malformed (parse_profile py_lib (JDict [(''properties'', JList [JDict []])]))
   \<and> is_malformed (parse_profile py_lib (profile_doc ''abc''))
   \<and> is_malformed (parse_profile py_lib (profile_doc truncated_blob))
   \<and> is_malformed (parse_profile py_lib (profile_doc bad_uuid_blob))
   \<and> is_malformed (parse_profile py_lib (profile_doc no_name_blob))"
proof -
  note inst = parse_profile_structural_failure [where lib = py_lib]
  have a: "is_malformed (parse_profile py_lib (JDict []))"
    using inst [where data = "JDict []" and d = "[]"] by simp
  have a': "is_malformed (parse_profile py_lib (JDict [(''properties'', JDict [])]))"
    using inst [where data = "JDict [(''properties'', JDict [])]"
        and d = "[(''properties'', JDict [])]"] by simp
  have b: "is_malformed (parse_profile py_lib (JDict [(''properties'', JList [])]))"
    using inst [where data = "JDict [(''properties'', JList [])]"
        and d = "[(''properties'', JList [])]"] by simp
  have b': "is_malformed (parse_profile py_lib (JDict [(''properties'', JStr [])]))"
    using inst [where data = "JDict [(''properties'', JStr [])]"
        and d = "[(''properties'', JStr [])]"] by simp
  have c: "is_malformed (parse_profile py_lib (JDict [(''properties'', JList [JDict []])]))"
    using inst [where data = "JDict [(''properties'', JList [JDict []])]"
        and d = "[(''properties'', JList [JDict []])]" and q = "[]" and rest = "[]"] by simp
  have doc: "profile_doc blob =
      JDict [(''id'', JStr ''069a79f444e94726a5befca90e38aaf5''), (''name'', JStr ''Notch''),
             (''properties'', JList [JDict [(''name'', JStr ''textures''), (''value'', JStr blob)]])]"
    for blob by (simp add: profile_doc_def)
  note at_doc = inst [where d = "[(''id'', JStr ''069a79f444e94726a5befca90e38aaf5''),
        (''name'', JStr ''Notch''),
        (''properties'', JList [JDict [(''name'', JStr ''textures''), (''value'', JStr blob)]])]"
      and q = "[(''name'', JStr ''textures''), (''value'', JStr blob)]" and rest = "[]"
      and v = "JStr blob" and data = "profile_doc blob" for blob]
  have d: "is_malformed (parse_profile py_lib (profile_doc ''abc''))"
    using at_doc [of "''abc''"] doc [of "''abc''"] bad_padding by simp
  have e: "is_malformed (parse_profile py_lib (profile_doc truncated_blob))"
    using at_doc [of truncated_blob] doc [of truncated_blob] truncated_blob_decodes
      truncated_text_fails by simp
  have uu: "map_of bad_uuid_payload ''profileId'' = Some (JStr ''not-a-uuid'')"
    "py_get (JDict bad_uuid_payload) ''textures'' (JDict []) = Inr (JDict [])"
    by (simp_all add: bad_uuid_payload_def)
  have f: "is_malformed (parse_profile py_lib (profile_doc bad_uuid_blob))"
    using at_doc [of bad_uuid_blob] doc [of bad_uuid_blob] bad_uuid_blob_decodes
      bad_uuid_text_loads uu not_a_uuid by (auto simp del: py_get.simps)
  have nn: "map_of no_name_payload ''profileId'' = Some (JStr ''069a79f444e94726a5befca90e38aaf5'')"
    "map_of no_name_payload ''profileName'' = None"
    "py_get (JDict no_name_payload) ''textures'' (JDict []) = Inr (JDict [])"
    by (simp_all add: no_name_payload_def)
  have g: "is_malformed (parse_profile py_lib (profile_doc no_name_blob))"
    using at_doc [of no_name_blob] doc [of no_name_blob] no_name_blob_decodes
      no_name_text_loads nn notch_uuid_parses by (auto simp del: py_get.simps)
  from a a' b b' c d e f g show ?thesis by blast
qed

subsection \<open>Problems that leave the decoder as other exceptions\<close>

text \<open>
  The two \<^verbatim>\<open>except\<close> clauses of \<^verbatim>\<open>_parse_profile\<close> name neither \<open>TypeError\<close> nor
  \<open>AttributeError\<close>: a \<open>properties\<close> that is a string, and a payload that is a JSON array,
  end the call with these exceptions, whatever the library does.
\<close>

lemma parse_profile_properties_string:
  "parse_profile lib (JDict [(''properties'', JStr ''abc'')]) =
     Inl (PyExc TypeError
       (''string indices must be integers, not '' @ [CHR 0x27] @ ''str'' @ [CHR 0x27]))"
  by (simp add: parse_profile_def decode_textures_def bind_exn_def seq_position_def)

lemma parse_profile_payload_array:
  assumes "b64decode lib (JStr blob) = Inr bytes" and "json_loads lib bytes = Inr (JList xs)"
  shows "parse_profile lib (profile_doc blob) =
     Inl (PyExc AttributeError
       ([CHR 0x27] @ ''list'' @ [CHR 0x27] @ '' object has no attribute '' @
        [CHR 0x27] @ ''get'' @ [CHR 0x27]))"
  using assms
  by (simp add: parse_profile_def decode_textures_def bind_exn_def seq_position_def
        profile_doc_def)

text \<open>So does a \<open>profileId\<close> on which the UUID constructor raises a class that the second
  clause does not name (an \<open>AttributeError\<close> for a number, a \<open>TypeError\<close> for
  \<^verbatim>\<open>null\<close>).\<close>

lemma parse_profile_uuid_escape:
  assumes "b64decode lib (JStr blob) = Inr bytes" and "json_loads lib bytes = Inr (JDict kvs)"
    and "py_get (JDict kvs) ''textures'' (JDict []) = Inr (JDict tx)"
    and "map_of kvs ''profileId'' = Some pid" and "uuid_UUID lib pid = Inl exc"
    and "\<not> caught [KeyError, ValueError] exc"
  shows "parse_profile lib (profile_doc blob) = Inl exc"
proof -
  have dec: "decode_textures lib (profile_doc blob) = Inr (JDict kvs)"
    using assms(1,2)
    by (simp add: decode_textures_def bind_exn_def seq_position_def profile_doc_def)
  obtain skin where sk: "py_get (JDict tx) ''SKIN'' (JDict []) = Inr skin"
    by simp
  have b: "build_profile lib (JDict kvs) (JDict tx) skin = Inl exc"
    using assms(4,5) by (simp add: build_profile_def bind_exn_def)
  from dec assms(3) sk b assms(6) show ?thesis
    by (simp add: parse_profile_def bind_exn_def del: py_get.simps)
qed

end
